theory Spec2Isabelle
  imports Complex_Main
begin

section \<open>Well-plate colour analysis: the embedding\<close>

text \<open>
  The embedded code is the well-plate processor (\<^verbatim>\<open>rgbToLab\<close>, \<^verbatim>\<open>labToRgb\<close>,
  \<^verbatim>\<open>getPixelData\<close>, \<^verbatim>\<open>getRobustAverageColor\<close>, \<^verbatim>\<open>processWellPlate\<close>).

  JavaScript numbers are IEEE doubles; they are idealised here as \<^typ>\<open>real\<close>, so
  \<^verbatim>\<open>Math.pow\<close> at a positive base is \<^const>\<open>powr\<close>, \<^verbatim>\<open>Math.pow(t, 2)\<close> and
  \<^verbatim>\<open>Math.pow(t, 3)\<close> are integer powers, and no rounding error, \<^verbatim>\<open>NaN\<close> or infinity
  occurs. Every call of \<^verbatim>\<open>Math.pow\<close> with a fractional exponent in the source is guarded
  by a test that makes its base positive.

  Record fields carry a prefix (\<open>rgb_\<close>, \<open>lab_\<close>, \<open>pt_\<close>, \<open>wr_\<close>) because the source's
  field names (\<^verbatim>\<open>r\<close>, \<^verbatim>\<open>b\<close>, \<^verbatim>\<open>x\<close>, \<^verbatim>\<open>id\<close>, \<^verbatim>\<open>row\<close>, ...) would otherwise be
  global constants that capture variables, and \<^verbatim>\<open>b\<close> occurs in two interfaces.
\<close>

subsection \<open>Data model (types.ts and the Lab interface)\<close>

record Point =
  pt_x :: real
  pt_y :: real

record RGB =
  rgb_r :: real
  rgb_g :: real
  rgb_b :: real

record Lab =
  lab_l :: real
  lab_a :: real
  lab_b :: real

record WellResult =
  wr_id :: string
  wr_row :: nat
  wr_col :: nat
  wr_center :: Point
  wr_avgColor :: RGB
  wr_intensity :: real
  wr_cellCount :: real

definition NUM_ROWS :: nat where
  "NUM_ROWS = 8"

definition NUM_COLS :: nat where
  "NUM_COLS = 6"

definition WELL_RADIUS_FACTOR :: real where
  "WELL_RADIUS_FACTOR = 0.30"

subsection \<open>Numeric primitives of the platform\<close>

text \<open>\<^verbatim>\<open>Math.round\<close> rounds to the nearest integer, halves towards plus infinity.\<close>

definition Math_round :: "real \<Rightarrow> int" where
  "Math_round v = \<lfloor>v + 1 / 2\<rfloor>"

subsection \<open>rgbToLab\<close>

text \<open>
  The source repeats the gamma expansion inline for the three channels
  (\<^verbatim>\<open>(r > 0.04045) ? Math.pow((r + 0.055) / 1.055, 2.4) : r / 12.92\<close>); it is one
  definition here. \<open>rgbToLab_f\<close> is the local arrow function \<^verbatim>\<open>f\<close>.
\<close>

definition rgbToLab_linear :: "real \<Rightarrow> real" where
  "rgbToLab_linear c = (if c > 0.04045 then ((c + 0.055) / 1.055) powr 2.4 else c / 12.92)"

definition rgbToLab_f :: "real \<Rightarrow> real" where
  "rgbToLab_f t = (if t > 0.008856 then t powr (1 / 3) else (7.787 * t) + (16 / 116))"

definition rgbToLab :: "RGB \<Rightarrow> Lab" where
  "rgbToLab rgb =
    (let r = rgbToLab_linear (rgb_r rgb / 255);
         g = rgbToLab_linear (rgb_g rgb / 255);
         b = rgbToLab_linear (rgb_b rgb / 255);
         x = r * 0.4124564 + g * 0.3575761 + b * 0.1804375;
         y = r * 0.2126729 + g * 0.7151522 + b * 0.0721750;
         z = r * 0.0193339 + g * 0.1191920 + b * 0.9503041;
         varX = rgbToLab_f (x / 0.95047);
         varY = rgbToLab_f (y / 1.00000);
         varZ = rgbToLab_f (z / 1.08883)
     in \<lparr>lab_l = (116 * varY) - 16, lab_a = 500 * (varX - varY), lab_b = 200 * (varY - varZ)\<rparr>)"

subsection \<open>labToRgb\<close>

definition labToRgb_f_inv :: "real \<Rightarrow> real" where
  "labToRgb_f_inv t = (if t > 0.206897 then t ^ 3 else (t - 16 / 116) / 7.787)"

definition labToRgb_toSrgb :: "real \<Rightarrow> real" where
  "labToRgb_toSrgb c = (if c > 0.0031308 then 1.055 * (c powr (1 / 2.4)) - 0.055 else 12.92 * c)"

definition labToRgb_clamp :: "real \<Rightarrow> real" where
  "labToRgb_clamp val = real_of_int (max 0 (min 255 (Math_round (val * 255))))"

definition labToRgb :: "Lab \<Rightarrow> RGB" where
  "labToRgb lab =
    (let y0 = (lab_l lab + 16) / 116;
         x0 = lab_a lab / 500 + y0;
         z0 = y0 - lab_b lab / 200;
         x = labToRgb_f_inv x0 * 0.95047;
         y = labToRgb_f_inv y0 * 1.00000;
         z = labToRgb_f_inv z0 * 1.08883;
         r = x * 3.2404542 + y * (- 1.5371385) + z * (- 0.4985314);
         g = x * (- 0.9692660) + y * 1.8760108 + z * 0.0415560;
         b = x * 0.0556434 + y * (- 0.2040259) + z * 1.0572252
     in \<lparr>rgb_r = labToRgb_clamp (labToRgb_toSrgb r),
         rgb_g = labToRgb_clamp (labToRgb_toSrgb g),
         rgb_b = labToRgb_clamp (labToRgb_toSrgb b)\<rparr>)"

subsection \<open>getPixelData\<close>

text \<open>
  The canvas context is a parameter of the model: the only thing the code asks of it is
  \<^verbatim>\<open>getImageData(sx, sy, sw, sh)\<close>, which either throws (\<open>None\<close>; the source's
  \<^verbatim>\<open>catch\<close> then leaves \<^verbatim>\<open>pixels\<close> empty) or returns the image data. The data is
  a byte array with four bytes (red, green, blue, alpha) per pixel; the model keeps it as a
  list of such quadruples, so the source's index \<^verbatim>\<open>i / 4\<close> is the list position \<open>k\<close>
  and \<^verbatim>\<open>data[i]\<close>, \<^verbatim>\<open>data[i + 1]\<close>, \<^verbatim>\<open>data[i + 2]\<close> are the first three components.
\<close>

type_synonym rgba = "nat \<times> nat \<times> nat \<times> nat"

type_synonym CanvasRenderingContext2D = "int \<Rightarrow> int \<Rightarrow> int \<Rightarrow> int \<Rightarrow> rgba list option"

text \<open>
  The \<^verbatim>\<open>for\<close> loop of \<^verbatim>\<open>getPixelData\<close> is \<open>pixelLoop\<close>; \<open>inDisc\<close> is its test
  \<^verbatim>\<open>dist <= radius\<close> at pixel index \<open>k\<close> and \<open>rgbOf\<close> builds the pixel it pushes.
\<close>

definition inDisc :: "int \<Rightarrow> nat \<Rightarrow> bool" where
  "inDisc radius k =
    (let px = int k mod (radius * 2);
         py = int k div (radius * 2);
         dist = sqrt (real_of_int ((px - radius) ^ 2 + (py - radius) ^ 2))
     in dist \<le> real_of_int radius)"

definition rgbOf :: "rgba \<Rightarrow> RGB" where
  "rgbOf d = (case d of (r, g, b, a) \<Rightarrow> \<lparr>rgb_r = real r, rgb_g = real g, rgb_b = real b\<rparr>)"

fun pixelLoop :: "int \<Rightarrow> rgba list \<Rightarrow> nat \<Rightarrow> RGB list \<Rightarrow> RGB list" where
  "pixelLoop radius [] k pixels = pixels"
| "pixelLoop radius (d # data) k pixels =
     pixelLoop radius data (k + 1) (if inDisc radius k then pixels @ [rgbOf d] else pixels)"

definition getPixelData :: "CanvasRenderingContext2D \<Rightarrow> real \<Rightarrow> real \<Rightarrow> real \<Rightarrow> RGB list" where
  "getPixelData ctx x y radius0 =
    (let radius = max 1 (Math_round radius0) in
     case ctx (Math_round (x - real_of_int radius)) (Math_round (y - real_of_int radius))
              (radius * 2) (radius * 2) of
       None \<Rightarrow> []
     | Some data \<Rightarrow> pixelLoop radius data 0 [])"

subsection \<open>getRobustAverageColor\<close>

text \<open>
  \<^verbatim>\<open>sort((a, b) => a - b)\<close> is the ascending numeric sort. The source computes \<^verbatim>\<open>mid\<close>
  once and repeats the median expression for the three channels, whose arrays have the same
  length; \<open>medianOf\<close> is that expression.
\<close>

definition medianOf :: "real list \<Rightarrow> real" where
  "medianOf values =
    (let mid = length values div 2
     in if length values mod 2 = 0 then (values ! (mid - 1) + values ! mid) / 2
        else values ! mid)"

fun getRobustAverageColor :: "RGB list \<Rightarrow> RGB" where
  "getRobustAverageColor [] = \<lparr>rgb_r = 0, rgb_g = 0, rgb_b = 0\<rparr>"
| "getRobustAverageColor [p] = p"
| "getRobustAverageColor pixels =
    (let labPixels = map rgbToLab pixels;
         l_values = sort (map lab_l labPixels);
         a_values = sort (map lab_a labPixels);
         b_values = sort (map lab_b labPixels);
         medianLabColor = \<lparr>lab_l = medianOf l_values, lab_a = medianOf a_values,
                            lab_b = medianOf b_values\<rparr>
     in labToRgb medianLabColor)"

subsection \<open>processWellPlate\<close>

text \<open>
  The scorer is the block of the inner loop that sets \<^verbatim>\<open>intensity\<close> and
  \<^verbatim>\<open>cellCount\<close>; \<open>projectOnGradient\<close> is its guarded branch, taken on the Lab colour of
  the well.
\<close>

definition dotLab :: "Lab \<Rightarrow> Lab \<Rightarrow> real" where
  "dotLab u v = (lab_l u * lab_l v) + (lab_a u * lab_a v) + (lab_b u * lab_b v)"

definition subLab :: "Lab \<Rightarrow> Lab \<Rightarrow> Lab" where
  "subLab u v = \<lparr>lab_l = lab_l u - lab_l v, lab_a = lab_a u - lab_a v, lab_b = lab_b u - lab_b v\<rparr>"

definition projectOnGradient :: "Lab \<Rightarrow> Lab \<Rightarrow> real \<Rightarrow> Lab \<Rightarrow> real \<times> real" where
  "projectOnGradient labMin gradientVector gradientMagSq labWell =
    (let wellVector = subLab labWell labMin;
         dotProduct = dotLab wellVector gradientVector;
         intensity = dotProduct / gradientMagSq;
         intensity = max 0 (min 1 intensity);
         cellCount = intensity ^ 2 * 10000
     in (intensity, cellCount))"

definition scoreWell :: "RGB list \<Rightarrow> RGB \<Rightarrow> Lab \<Rightarrow> Lab \<Rightarrow> real \<Rightarrow> real \<times> real" where
  "scoreWell pixels avgColor labMin gradientVector gradientMagSq =
    (if length pixels > 0 \<and> gradientMagSq > 0.000001
     then projectOnGradient labMin gradientVector gradientMagSq (rgbToLab avgColor)
     else (0, 0))"

text \<open>
  The id is \<^verbatim>\<open>String.fromCharCode(65 + row)\<close> followed by the decimal numeral of
  \<^verbatim>\<open>col + 1\<close>.
\<close>

fun decimal :: "nat \<Rightarrow> string" where
  "decimal n = (if n < 10 then [char_of (48 + n)] else decimal (n div 10) @ [char_of (48 + n mod 10)])"

declare decimal.simps [simp del]

definition wellId :: "nat \<Rightarrow> nat \<Rightarrow> string" where
  "wellId row col = [char_of (65 + row)] @ decimal (col + 1)"

text \<open>
  The three constants \<^verbatim>\<open>labMin\<close>, \<^verbatim>\<open>gradientVector\<close> and \<^verbatim>\<open>gradientMagSq\<close> that
  \<^verbatim>\<open>processWellPlate\<close> computes before the loops travel together as one record.
\<close>

record Axis =
  ax_labMin :: Lab
  ax_gradientVector :: Lab
  ax_gradientMagSq :: real

text \<open>
  \<open>wellBody\<close> is the body of the inner loop; the values the loop reads from the enclosing
  scope (\<^verbatim>\<open>ctx\<close>, \<^verbatim>\<open>a1\<close>, \<^verbatim>\<open>dx\<close>, \<^verbatim>\<open>dy\<close>, \<^verbatim>\<open>radius\<close>, \<^verbatim>\<open>labMin\<close>,
  \<^verbatim>\<open>gradientVector\<close>, \<^verbatim>\<open>gradientMagSq\<close>) are its parameters.
\<close>

definition wellBody ::
  "CanvasRenderingContext2D \<Rightarrow> Point \<Rightarrow> real \<Rightarrow> real \<Rightarrow> real \<Rightarrow> Axis \<Rightarrow> nat \<Rightarrow> nat \<Rightarrow> WellResult" where
  "wellBody ctx a1 dx dy radius axis row col =
    (let centerX = pt_x a1 + real col * dx;
         centerY = pt_y a1 + real row * dy;
         pixels = getPixelData ctx centerX centerY radius;
         avgColor = getRobustAverageColor pixels;
         score = scoreWell pixels avgColor (ax_labMin axis) (ax_gradientVector axis)
                   (ax_gradientMagSq axis)
     in \<lparr>wr_id = wellId row col, wr_row = row, wr_col = col,
         wr_center = \<lparr>pt_x = centerX, pt_y = centerY\<rparr>,
         wr_avgColor = avgColor, wr_intensity = fst score, wr_cellCount = snd score\<rparr>)"

function colLoop :: "(nat \<Rightarrow> nat \<Rightarrow> WellResult) \<Rightarrow> nat \<Rightarrow> nat \<Rightarrow> WellResult list \<Rightarrow> WellResult list" where
  "colLoop body row col results =
    (if col < NUM_COLS then colLoop body row (col + 1) (results @ [body row col]) else results)"
  by pat_completeness auto
termination
  by (relation "measure (\<lambda>(body, row, col, results). NUM_COLS - col)") auto

declare colLoop.simps [simp del]

function rowLoop :: "(nat \<Rightarrow> nat \<Rightarrow> WellResult) \<Rightarrow> nat \<Rightarrow> WellResult list \<Rightarrow> WellResult list" where
  "rowLoop body row results =
    (if row < NUM_ROWS then rowLoop body (row + 1) (colLoop body row 0 results) else results)"
  by pat_completeness auto
termination
  by (relation "measure (\<lambda>(body, row, results). NUM_ROWS - row)") auto

declare rowLoop.simps [simp del]

text \<open>
  The promise either rejects (\<open>Inl\<close>) or resolves (\<open>Inr\<close>). What the browser does with
  the image URL is the environment: the image fails to load (\<^verbatim>\<open>image.onerror\<close>), or it
  loads and \<^verbatim>\<open>canvas.getContext('2d')\<close> is null, or it loads and is drawn on a canvas.
\<close>

datatype error = ImageLoadError | CouldNotGetCanvasContext | CouldNotSampleReferenceColors

datatype image_source = LoadFails | NoContext | Drawn CanvasRenderingContext2D

text \<open>
  \<open>gridDx\<close>, \<open>gridDy\<close> and \<open>gridRadius\<close> are the local constants \<^verbatim>\<open>dx\<close>, \<^verbatim>\<open>dy\<close> and
  \<^verbatim>\<open>radius\<close> of \<^verbatim>\<open>processWellPlate\<close>; \<open>buildAxis\<close> is its computation of \<^verbatim>\<open>labMin\<close>,
  \<^verbatim>\<open>gradientVector\<close> and \<^verbatim>\<open>gradientMagSq\<close> from the two reference colours.
\<close>

definition gridDx :: "Point \<Rightarrow> Point \<Rightarrow> real" where
  "gridDx a1 h6 = (pt_x h6 - pt_x a1) / real (NUM_COLS - 1)"

definition gridDy :: "Point \<Rightarrow> Point \<Rightarrow> real" where
  "gridDy a1 h6 = (pt_y h6 - pt_y a1) / real (NUM_ROWS - 1)"

definition gridRadius :: "Point \<Rightarrow> Point \<Rightarrow> real" where
  "gridRadius a1 h6 = min \<bar>gridDx a1 h6\<bar> \<bar>gridDy a1 h6\<bar> * WELL_RADIUS_FACTOR"

definition buildAxis :: "RGB \<Rightarrow> RGB \<Rightarrow> Axis" where
  "buildAxis minRefRgb maxRefRgb =
    (let labMin = rgbToLab minRefRgb;
         labMax = rgbToLab maxRefRgb;
         gradientVector = subLab labMax labMin;
         gradientMagSq = (lab_l gradientVector) ^ 2 + (lab_a gradientVector) ^ 2
                           + (lab_b gradientVector) ^ 2
     in \<lparr>ax_labMin = labMin, ax_gradientVector = gradientVector,
         ax_gradientMagSq = gradientMagSq\<rparr>)"

definition processWellPlate ::
  "image_source \<Rightarrow> Point \<Rightarrow> Point \<Rightarrow> Point \<Rightarrow> Point \<Rightarrow> error + WellResult list" where
  "processWellPlate src a1 h6 minColorPoint maxColorPoint =
    (case src of
       LoadFails \<Rightarrow> Inl ImageLoadError
     | NoContext \<Rightarrow> Inl CouldNotGetCanvasContext
     | Drawn ctx \<Rightarrow>
        (let dx = gridDx a1 h6;
             dy = gridDy a1 h6;
             radius = gridRadius a1 h6;
             minColorPixels = getPixelData ctx (pt_x minColorPoint) (pt_y minColorPoint) radius;
             maxColorPixels = getPixelData ctx (pt_x maxColorPoint) (pt_y maxColorPoint) radius
         in if length minColorPixels = 0 \<or> length maxColorPixels = 0
            then Inl CouldNotSampleReferenceColors
            else
              (let minRefRgb = getRobustAverageColor minColorPixels;
                   maxRefRgb = getRobustAverageColor maxColorPixels;
                   axis = buildAxis minRefRgb maxRefRgb
               in Inr (rowLoop (wellBody ctx a1 dx dy radius axis) 0 []))))"


subsection \<open>Names for the intermediate values of a run\<close>

definition referencePixels :: "CanvasRenderingContext2D \<Rightarrow> Point \<Rightarrow> Point \<Rightarrow> Point \<Rightarrow> RGB list" where
  "referencePixels ctx a1 h6 p = getPixelData ctx (pt_x p) (pt_y p) (gridRadius a1 h6)"

definition plateAxis :: "CanvasRenderingContext2D \<Rightarrow> Point \<Rightarrow> Point \<Rightarrow> Point \<Rightarrow> Point \<Rightarrow> Axis" where
  "plateAxis ctx a1 h6 minColorPoint maxColorPoint =
     buildAxis (getRobustAverageColor (referencePixels ctx a1 h6 minColorPoint))
               (getRobustAverageColor (referencePixels ctx a1 h6 maxColorPoint))"

definition wellPixels :: "CanvasRenderingContext2D \<Rightarrow> Point \<Rightarrow> Point \<Rightarrow> nat \<Rightarrow> nat \<Rightarrow> RGB list" where
  "wellPixels ctx a1 h6 row col =
     getPixelData ctx (pt_x a1 + real col * gridDx a1 h6) (pt_y a1 + real row * gridDy a1 h6)
       (gridRadius a1 h6)"

definition grid :: "(nat \<Rightarrow> nat \<Rightarrow> 'a) \<Rightarrow> nat \<Rightarrow> nat \<Rightarrow> 'a list" where
  "grid f m n = concat (map (\<lambda>r. map (f r) [0..<n]) [0..<m])"

subsection \<open>The robust estimator as the specification words it\<close>

text \<open>
  For the comparison with \<open>getRobustAverageColor\<close> only: the estimate written after the
  specification's sentences. The middle values of a sorted channel are what remains when
  the same number of values, as many as possible, is removed at both ends (one value for an
  odd count, two for an even count); the median is their average.
\<close>

definition middleValues :: "real list \<Rightarrow> real list" where
  "middleValues vs = (let k = (length vs - 1) div 2 in take (length vs - 2 * k) (drop k vs))"

definition median_spec :: "real list \<Rightarrow> real" where
  "median_spec vs = (let ms = middleValues (sort vs) in sum_list ms / real (length ms))"

definition estimate_spec :: "RGB list \<Rightarrow> RGB" where
  "estimate_spec pixels =
    (if pixels = [] then \<lparr>rgb_r = 0, rgb_g = 0, rgb_b = 0\<rparr>
     else if length pixels = 1 then hd pixels
     else
       (let uniform = map rgbToLab pixels
        in labToRgb \<lparr>lab_l = median_spec (map lab_l uniform),
                     lab_a = median_spec (map lab_a uniform),
                     lab_b = median_spec (map lab_b uniform)\<rparr>))"

subsection \<open>A concrete canvas for the examples\<close>

text \<open>
  \<^verbatim>\<open>getImageData\<close> as the HTML standard describes it for a canvas of \<open>w\<close> by \<open>h\<close> pixels
  that may be read: it throws when the width or the height of the rectangle is zero, and
  otherwise returns the pixels of the rectangle row by row, transparent black where the
  rectangle leaves the canvas.
\<close>

definition canvasOf :: "nat \<Rightarrow> nat \<Rightarrow> (nat \<Rightarrow> nat \<Rightarrow> rgba) \<Rightarrow> CanvasRenderingContext2D" where
  "canvasOf w h pix sx sy sw sh =
    (if sw = 0 \<or> sh = 0 then None
     else
       (let x0 = min sx (sx + sw); y0 = min sy (sy + sh);
            cols = nat \<bar>sw\<bar>; rows = nat \<bar>sh\<bar>
        in Some (map (\<lambda>k. let x = x0 + int (k mod cols); y = y0 + int (k div cols)
                           in if 0 \<le> x \<and> x < int w \<and> 0 \<le> y \<and> y < int h
                              then pix (nat x) (nat y) else (0, 0, 0, 0))
                   [0..<rows * cols])))"

text \<open>A canvas that cannot be read (the image tainted it): every call throws.\<close>

definition taintedCanvas :: CanvasRenderingContext2D where
  "taintedCanvas sx sy sw sh = None"

text \<open>
  A photograph of 100 by 100 pixels, black on the left half and white on the right, with the
  landmarks of a grid whose columns are 15 pixels and whose rows are 1 pixel apart, a
  reference point in the black half and one in the white half.
\<close>

definition twoTone :: "nat \<Rightarrow> nat \<Rightarrow> rgba" where
  "twoTone x y = (if x < 50 then (0, 0, 0, 255) else (255, 255, 255, 255))"

definition demoCanvas :: CanvasRenderingContext2D where
  "demoCanvas = canvasOf 100 100 twoTone"

definition demoA1 :: Point where "demoA1 = \<lparr>pt_x = 10, pt_y = 10\<rparr>"
definition demoH6 :: Point where "demoH6 = \<lparr>pt_x = 85, pt_y = 17\<rparr>"
definition demoMin :: Point where "demoMin = \<lparr>pt_x = 20, pt_y = 20\<rparr>"
definition demoMax :: Point where "demoMax = \<lparr>pt_x = 70, pt_y = 20\<rparr>"

definition black :: RGB where "black = \<lparr>rgb_r = 0, rgb_g = 0, rgb_b = 0\<rparr>"
definition white :: RGB where "white = \<lparr>rgb_r = 255, rgb_g = 255, rgb_b = 255\<rparr>"

section \<open>Properties\<close>

subsection \<open>The loops\<close>

lemma colLoop_eq:
  "col \<le> NUM_COLS \<Longrightarrow> colLoop body row col results = results @ map (body row) [col..<NUM_COLS]"
proof (induction body row col results rule: colLoop.induct)
  case (1 body row col results)
  show ?case
  proof (cases "col < NUM_COLS")
    case True
    then have "colLoop body row col results = colLoop body row (col + 1) (results @ [body row col])"
      by (subst colLoop.simps) simp
    also have "\<dots> = (results @ [body row col]) @ map (body row) [col + 1..<NUM_COLS]"
      using 1 True by simp
    also have "\<dots> = results @ map (body row) [col..<NUM_COLS]"
      using True by (simp add: upt_conv_Cons)
    finally show ?thesis .
  next
    case False
    with 1 show ?thesis by (subst colLoop.simps) simp
  qed
qed

lemma rowLoop_eq:
  "row \<le> NUM_ROWS \<Longrightarrow> rowLoop body row results =
     results @ concat (map (\<lambda>r. map (body r) [0..<NUM_COLS]) [row..<NUM_ROWS])"
proof (induction body row results rule: rowLoop.induct)
  case (1 body row results)
  show ?case
  proof (cases "row < NUM_ROWS")
    case True
    then have "rowLoop body row results = rowLoop body (row + 1) (colLoop body row 0 results)"
      by (subst rowLoop.simps) simp
    also have "\<dots> = colLoop body row 0 results
                  @ concat (map (\<lambda>r. map (body r) [0..<NUM_COLS]) [row + 1..<NUM_ROWS])"
      using 1 True by simp
    also have "\<dots> = results @ concat (map (\<lambda>r. map (body r) [0..<NUM_COLS]) [row..<NUM_ROWS])"
      using True by (simp add: colLoop_eq upt_conv_Cons)
    finally show ?thesis .
  next
    case False
    with 1 show ?thesis by (subst rowLoop.simps) simp
  qed
qed

lemma rowLoop_grid: "rowLoop body 0 [] = grid body NUM_ROWS NUM_COLS"
  by (simp add: rowLoop_eq grid_def)

lemma length_grid: "length (grid f m n) = m * n"
  by (induction m) (simp_all add: grid_def)

lemma grid_Suc: "grid f (Suc m) n = grid f m n @ map (f m) [0..<n]"
  by (simp add: grid_def)

lemma grid_index_less:
  fixes r c m n :: nat
  assumes "r < m" "c < n"
  shows "r * n + c < m * n"
proof -
  have "r * n + c < r * n + n" using assms(2) by simp
  also have "\<dots> = Suc r * n" by simp
  also have "\<dots> \<le> m * n" using assms(1) by (intro mult_le_mono1) simp
  finally show ?thesis .
qed

lemma nth_grid: "r < m \<Longrightarrow> c < n \<Longrightarrow> grid f m n ! (r * n + c) = f r c"
proof (induction m)
  case 0
  then show ?case by simp
next
  case (Suc m)
  show ?case
  proof (cases "r < m")
    case True
    then have "r * n + c < m * n"
      using Suc.prems(2) by (rule grid_index_less)
    then show ?thesis using Suc True by (simp add: grid_Suc nth_append length_grid)
  next
    case False
    then have "r = m" using Suc.prems(1) by simp
    then show ?thesis using Suc.prems(2) by (simp add: grid_Suc nth_append length_grid)
  qed
qed

lemma map_grid: "map g (grid f m n) = grid (\<lambda>r c. g (f r c)) m n"
  by (simp add: grid_def map_concat comp_def)

subsection \<open>The shape of a run\<close>

lemma processWellPlate_Drawn:
  "processWellPlate (Drawn ctx) a1 h6 mn mx =
    (if referencePixels ctx a1 h6 mn = [] \<or> referencePixels ctx a1 h6 mx = []
     then Inl CouldNotSampleReferenceColors
     else Inr (grid (wellBody ctx a1 (gridDx a1 h6) (gridDy a1 h6) (gridRadius a1 h6)
                      (plateAxis ctx a1 h6 mn mx)) NUM_ROWS NUM_COLS))"
  by (simp add: processWellPlate_def referencePixels_def plateAxis_def rowLoop_grid Let_def)

lemma processWellPlate_InrD:
  assumes "processWellPlate src a1 h6 mn mx = Inr results"
  shows "\<exists>ctx. src = Drawn ctx \<and> referencePixels ctx a1 h6 mn \<noteq> []
           \<and> referencePixels ctx a1 h6 mx \<noteq> []
           \<and> results = grid (wellBody ctx a1 (gridDx a1 h6) (gridDy a1 h6) (gridRadius a1 h6)
                             (plateAxis ctx a1 h6 mn mx)) NUM_ROWS NUM_COLS"
proof (cases src)
  case LoadFails
  with assms show ?thesis by (simp add: processWellPlate_def)
next
  case NoContext
  with assms show ?thesis by (simp add: processWellPlate_def)
next
  case (Drawn ctx)
  with assms show ?thesis by (auto simp: processWellPlate_Drawn split: if_splits)
qed

lemma char_of_codes:
  "char_of (65::nat) = CHR ''A''"
  "char_of (66::nat) = CHR ''B''"
  "char_of (67::nat) = CHR ''C''"
  "char_of (68::nat) = CHR ''D''"
  "char_of (69::nat) = CHR ''E''"
  "char_of (70::nat) = CHR ''F''"
  "char_of (71::nat) = CHR ''G''"
  "char_of (72::nat) = CHR ''H''"
  "char_of (49::nat) = CHR ''1''"
  "char_of (50::nat) = CHR ''2''"
  "char_of (51::nat) = CHR ''3''"
  "char_of (52::nat) = CHR ''4''"
  "char_of (53::nat) = CHR ''5''"
  "char_of (54::nat) = CHR ''6''"
  by code_simp+

lemma grid_wellId:
  "grid wellId 8 6 =
     [''A1'', ''A2'', ''A3'', ''A4'', ''A5'', ''A6'',
      ''B1'', ''B2'', ''B3'', ''B4'', ''B5'', ''B6'',
      ''C1'', ''C2'', ''C3'', ''C4'', ''C5'', ''C6'',
      ''D1'', ''D2'', ''D3'', ''D4'', ''D5'', ''D6'',
      ''E1'', ''E2'', ''E3'', ''E4'', ''E5'', ''E6'',
      ''F1'', ''F2'', ''F3'', ''F4'', ''F5'', ''F6'',
      ''G1'', ''G2'', ''G3'', ''G4'', ''G5'', ''G6'',
      ''H1'', ''H2'', ''H3'', ''H4'', ''H5'', ''H6'']"
  by (simp add: grid_def wellId_def upt_rec char_of_codes decimal.simps)

lemma wellBody_fields:
  "wr_id (wellBody ctx a1 dx dy radius axis row col) = wellId row col"
  "wr_row (wellBody ctx a1 dx dy radius axis row col) = row"
  "wr_col (wellBody ctx a1 dx dy radius axis row col) = col"
  "wr_center (wellBody ctx a1 dx dy radius axis row col)
     = \<lparr>pt_x = pt_x a1 + real col * dx, pt_y = pt_y a1 + real row * dy\<rparr>"
  "wr_avgColor (wellBody ctx a1 dx dy radius axis row col)
     = getRobustAverageColor
         (getPixelData ctx (pt_x a1 + real col * dx) (pt_y a1 + real row * dy) radius)"
  by (simp_all add: wellBody_def Let_def)

lemma wellBody_score:
  "(wr_intensity (wellBody ctx a1 dx dy radius axis row col),
    wr_cellCount (wellBody ctx a1 dx dy radius axis row col))
     = (let pixels = getPixelData ctx (pt_x a1 + real col * dx) (pt_y a1 + real row * dy) radius
        in scoreWell pixels (getRobustAverageColor pixels) (ax_labMin axis)
             (ax_gradientVector axis) (ax_gradientMagSq axis))"
  by (simp add: wellBody_def Let_def)

subsection \<open>The sampler\<close>

lemma inDisc_iff:
  assumes "0 \<le> radius"
  shows "inDisc radius k \<longleftrightarrow>
           (int k mod (radius * 2) - radius) ^ 2 + (int k div (radius * 2) - radius) ^ 2 \<le> radius ^ 2"
proof -
  let ?n = "(int k mod (radius * 2) - radius) ^ 2 + (int k div (radius * 2) - radius) ^ 2"
  have "sqrt (real_of_int ?n) \<le> real_of_int radius \<longleftrightarrow> real_of_int ?n \<le> (real_of_int radius) ^ 2"
    using assms by (auto simp: real_le_lsqrt intro: real_le_rsqrt dest: sqrt_le_D)
  also have "\<dots> \<longleftrightarrow> ?n \<le> radius ^ 2"
    by (metis of_int_le_iff of_int_power)
  finally show ?thesis by (simp add: inDisc_def Let_def)
qed

lemma Math_round_small: "radius < 1 / 2 \<Longrightarrow> max 1 (Math_round radius) = 1"
proof -
  assume "radius < 1 / 2"
  then have "radius + 1 / 2 < 1" by simp
  then have "\<lfloor>radius + 1 / 2\<rfloor> < 1" by (simp add: floor_less_iff)
  then show ?thesis by (simp add: Math_round_def)
qed

lemma Math_round_ge_one: "1 \<le> max 1 (Math_round radius)"
  by simp

lemma getPixelData_small:
  "radius < 1 / 2 \<Longrightarrow> getPixelData ctx x y radius =
     (case ctx (Math_round (x - 1)) (Math_round (y - 1)) 2 2 of
        None \<Rightarrow> [] | Some data \<Rightarrow> pixelLoop 1 data 0 [])"
  by (simp add: getPixelData_def Math_round_small Let_def)

lemma pixelLoop_one_block:
  "pixelLoop 1 [p0, p1, p2, p3] 0 [] = [rgbOf p1, rgbOf p2, rgbOf p3]"
  by (simp add: inDisc_iff)

lemma getPixelData_block:
  assumes "radius < 1 / 2"
      and "ctx (Math_round (x - 1)) (Math_round (y - 1)) 2 2 = Some [p0, p1, p2, p3]"
  shows "getPixelData ctx x y radius = [rgbOf p1, rgbOf p2, rgbOf p3]"
  by (simp only: getPixelData_small [OF assms(1)] assms(2) option.case pixelLoop_one_block)

lemma getPixelData_throws:
  "getPixelData taintedCanvas x y radius = []"
  by (simp add: getPixelData_def taintedCanvas_def Let_def)

lemma canvasOf_block:
  "canvasOf w h pix sx sy 2 2 =
     Some (map (\<lambda>(x, y). if 0 \<le> x \<and> x < int w \<and> 0 \<le> y \<and> y < int h
                          then pix (nat x) (nat y) else (0, 0, 0, 0))
             [(sx, sy), (sx + 1, sy), (sx, sy + 1), (sx + 1, sy + 1)])"
  by (simp add: canvasOf_def Let_def upt_rec)

lemma Math_round_of_int: "Math_round (real_of_int n) = n"
  by (simp add: Math_round_def)

lemma demo_steps: "gridDx demoA1 demoH6 = 15" "gridDy demoA1 demoH6 = 1"
  by (simp_all add: gridDx_def gridDy_def demoA1_def demoH6_def NUM_ROWS_def NUM_COLS_def)

lemma demo_radius: "gridRadius demoA1 demoH6 = 3 / 10"
  by (simp add: gridRadius_def gridDx_def gridDy_def demoA1_def demoH6_def NUM_ROWS_def
      NUM_COLS_def WELL_RADIUS_FACTOR_def)

lemma demo_black_sample:
  assumes "x \<in> {1..49}" "y \<in> {1..99}" "radius < 1 / 2"
  shows "getPixelData demoCanvas (real_of_int x) (real_of_int y) radius = [black, black, black]"
proof -
  have "Math_round (real_of_int x - 1) = x - 1" "Math_round (real_of_int y - 1) = y - 1"
    using Math_round_of_int [of "x - 1"] Math_round_of_int [of "y - 1"] by simp_all
  then show ?thesis
    using assms
    by (auto simp: getPixelData_small demoCanvas_def canvasOf_block inDisc_iff twoTone_def
        rgbOf_def black_def)
qed

lemma demo_white_sample:
  assumes "x \<in> {51..99}" "y \<in> {1..99}" "radius < 1 / 2"
  shows "getPixelData demoCanvas (real_of_int x) (real_of_int y) radius = [white, white, white]"
proof -
  have "Math_round (real_of_int x - 1) = x - 1" "Math_round (real_of_int y - 1) = y - 1"
    using Math_round_of_int [of "x - 1"] Math_round_of_int [of "y - 1"] by simp_all
  then show ?thesis
    using assms
    by (auto simp: getPixelData_small demoCanvas_def canvasOf_block inDisc_iff twoTone_def
        rgbOf_def white_def)
qed

lemma demo_min_pixels: "referencePixels demoCanvas demoA1 demoH6 demoMin = [black, black, black]"
  using demo_black_sample [of 20 20 "3 / 10"]
  by (simp add: referencePixels_def demo_radius demoMin_def)

lemma demo_max_pixels: "referencePixels demoCanvas demoA1 demoH6 demoMax = [white, white, white]"
  using demo_white_sample [of 70 20 "3 / 10"]
  by (simp add: referencePixels_def demo_radius demoMax_def)

lemma demo_resolves:
  "processWellPlate (Drawn demoCanvas) demoA1 demoH6 demoMin demoMax
     = Inr (projr (processWellPlate (Drawn demoCanvas) demoA1 demoH6 demoMin demoMax))"
  by (simp add: processWellPlate_Drawn demo_min_pixels demo_max_pixels)

subsection \<open>Colours of the example\<close>

lemma rgbToLab_black: "rgbToLab black = \<lparr>lab_l = 0, lab_a = 0, lab_b = 0\<rparr>"
  by (simp add: rgbToLab_def black_def rgbToLab_linear_def rgbToLab_f_def Let_def)

lemma labToRgb_f_inv_offset: "labToRgb_f_inv (4 / 29) = 0"
  by (simp add: labToRgb_f_inv_def)

lemma labToRgb_toSrgb_zero: "labToRgb_toSrgb 0 = 0"
  by (simp add: labToRgb_toSrgb_def)

lemma labToRgb_clamp_zero: "labToRgb_clamp 0 = 0"
  by (simp add: labToRgb_clamp_def Math_round_def)

lemma labToRgb_zero: "labToRgb \<lparr>lab_l = 0, lab_a = 0, lab_b = 0\<rparr> = black"
  unfolding labToRgb_def Let_def
  by (simp add: labToRgb_f_inv_offset labToRgb_toSrgb_zero labToRgb_clamp_zero black_def)

lemma labToRgb_rgbToLab_black: "labToRgb (rgbToLab black) = black"
  by (simp only: rgbToLab_black labToRgb_zero)

lemma cbrt_cube:
  fixes t :: real
  assumes "0 < t"
  shows "(t powr (1 / 3)) ^ 3 = t"
  using assms by (simp add: powr_power)

lemma rgbToLab_white:
  "rgbToLab white =
     \<lparr>lab_l = 116 * (1.0000001 powr (1 / 3)) - 16,
      lab_a = 500 * (1 - 1.0000001 powr (1 / 3)),
      lab_b = 200 * (1.0000001 powr (1 / 3) - 1)\<rparr>"
  by (simp add: rgbToLab_def white_def rgbToLab_linear_def rgbToLab_f_def Let_def)

lemma toSrgb_near_one:
  assumes "0.9982 \<le> c"
  shows "labToRgb_clamp (labToRgb_toSrgb c) = 255"
proof -
  have "0.9982 \<le> c powr (1 / 2.4)"
  proof (cases "c \<le> 1")
    case True
    have "c powr 1 \<le> c powr (1 / 2.4)"
      using assms True by (intro powr_mono') simp_all
    then show ?thesis using assms by simp
  next
    case False
    then have "1 \<le> c powr (1 / 2.4)"
      by (intro ge_one_powr_ge_zero) simp_all
    then show ?thesis by simp
  qed
  then have "254.5 \<le> labToRgb_toSrgb c * 255"
    using assms by (simp add: labToRgb_toSrgb_def)
  then have "255 \<le> Math_round (labToRgb_toSrgb c * 255)"
    by (simp add: Math_round_def le_floor_iff)
  then show ?thesis
    by (simp add: labToRgb_clamp_def)
qed

lemma labToRgb_rgbToLab_white: "labToRgb (rgbToLab white) = white"
proof -
  define c :: real where "c = 1.0000001 powr (1 / 3)"
  define lab where "lab = rgbToLab white"
  have c1: "1 \<le> c"
    unfolding c_def by (intro ge_one_powr_ge_zero) simp_all
  have c3: "c ^ 3 = 1.0000001"
    unfolding c_def by (rule cbrt_cube) simp
  have fc: "labToRgb_f_inv c = 1.0000001"
    using c1 c3 by (simp add: labToRgb_f_inv_def)
  have f1: "labToRgb_f_inv 1 = 1"
    by (simp add: labToRgb_f_inv_def)
  have y0: "(lab_l lab + 16) / 116 = c"
    by (simp add: lab_def rgbToLab_white c_def)
  have x0: "lab_a lab / 500 + c = 1"
    by (simp add: lab_def rgbToLab_white c_def diff_divide_distrib)
  have z0: "c - lab_b lab / 200 = 1"
    by (simp add: lab_def rgbToLab_white c_def diff_divide_distrib)
  have "labToRgb lab
      = \<lparr>rgb_r = labToRgb_clamp (labToRgb_toSrgb (19999998109963 / 20000000000000)),
         rgb_g = labToRgb_clamp (labToRgb_toSrgb (25000003801527 / 25000000000000)),
         rgb_b = labToRgb_clamp (labToRgb_toSrgb (99999997651141 / 100000000000000))\<rparr>"
    unfolding labToRgb_def Let_def y0 x0 z0 fc f1 by simp
  then show ?thesis
    by (simp add: toSrgb_near_one white_def lab_def)
qed

lemma lab_eta: "\<lparr>lab_l = lab_l v, lab_a = lab_a v, lab_b = lab_b v\<rparr> = v"
  by (cases v) simp

lemma getRobustAverageColor_same3:
  "getRobustAverageColor [p, p, p] = labToRgb (rgbToLab p)"
  by (simp add: medianOf_def Let_def lab_eta)

lemma demo_estimates:
  "getRobustAverageColor [black, black, black] = black"
  "getRobustAverageColor [white, white, white] = white"
  by (simp_all only: getRobustAverageColor_same3 labToRgb_rgbToLab_black labToRgb_rgbToLab_white)

lemma lab_l_white: "100 \<le> lab_l (rgbToLab white)"
proof -
  have "1 \<le> (1.0000001::real) powr (1 / 3)"
    by (intro ge_one_powr_ge_zero) simp_all
  then show ?thesis by (simp add: rgbToLab_white)
qed

lemma demo_axis:
  "plateAxis demoCanvas demoA1 demoH6 demoMin demoMax = buildAxis black white"
  by (simp only: plateAxis_def demo_min_pixels demo_max_pixels demo_estimates)

lemma buildAxis_fields:
  "ax_labMin (buildAxis c0 c1) = rgbToLab c0"
  "ax_gradientVector (buildAxis c0 c1) = subLab (rgbToLab c1) (rgbToLab c0)"
  "ax_gradientMagSq (buildAxis c0 c1)
     = dotLab (subLab (rgbToLab c1) (rgbToLab c0)) (subLab (rgbToLab c1) (rgbToLab c0))"
  by (simp_all add: buildAxis_def Let_def dotLab_def power2_eq_square)

lemma demo_magSq: "10000 \<le> ax_gradientMagSq (plateAxis demoCanvas demoA1 demoH6 demoMin demoMax)"
proof -
  let ?l = "lab_l (rgbToLab white)" and ?a = "lab_a (rgbToLab white)"
    and ?b = "lab_b (rgbToLab white)"
  have eq: "ax_gradientMagSq (plateAxis demoCanvas demoA1 demoH6 demoMin demoMax)
              = ?l * ?l + ?a * ?a + ?b * ?b"
    by (simp add: demo_axis buildAxis_fields rgbToLab_black dotLab_def subLab_def)
  have "100 * 100 \<le> ?l * ?l"
    using lab_l_white by (intro mult_mono) simp_all
  moreover have "0 \<le> ?a * ?a" "0 \<le> ?b * ?b"
    by simp_all
  ultimately show ?thesis
    unfolding eq by linarith
qed

subsection \<open>Output shape\<close>

text \<open>
  Claim C2. Whenever the promise resolves, the result list has exactly 48 entries, in
  row-major order: the ids are \<open>A1\<close> to \<open>A6\<close>, then \<open>B1\<close> to \<open>B6\<close>, and so on to \<open>H6\<close>,
  each the row letter followed by the 1-based column number, no id occurs twice, and the
  entry at position \<open>row * 6 + col\<close> is the one of that row and column.
\<close>

theorem processWellPlate_output_shape:
  assumes "processWellPlate src a1 h6 minColorPoint maxColorPoint = Inr results"
  shows "length results = 48
       \<and> map wr_id results =
           [''A1'', ''A2'', ''A3'', ''A4'', ''A5'', ''A6'',
      ''B1'', ''B2'', ''B3'', ''B4'', ''B5'', ''B6'',
      ''C1'', ''C2'', ''C3'', ''C4'', ''C5'', ''C6'',
      ''D1'', ''D2'', ''D3'', ''D4'', ''D5'', ''D6'',
      ''E1'', ''E2'', ''E3'', ''E4'', ''E5'', ''E6'',
      ''F1'', ''F2'', ''F3'', ''F4'', ''F5'', ''F6'',
      ''G1'', ''G2'', ''G3'', ''G4'', ''G5'', ''G6'',
      ''H1'', ''H2'', ''H3'', ''H4'', ''H5'', ''H6'']
       \<and> distinct (map wr_id results)
       \<and> (\<forall>row < 8. \<forall>col < 6.
             wr_id (results ! (row * 6 + col)) = char_of (65 + row) # decimal (col + 1)
           \<and> wr_row (results ! (row * 6 + col)) = row
           \<and> wr_col (results ! (row * 6 + col)) = col)"
proof -
  from processWellPlate_InrD [OF assms] obtain ctx where
    res: "results = grid (wellBody ctx a1 (gridDx a1 h6) (gridDy a1 h6) (gridRadius a1 h6)
                       (plateAxis ctx a1 h6 minColorPoint maxColorPoint)) 8 6"
    by (auto simp: NUM_ROWS_def NUM_COLS_def)
  have len: "length results = 48"
    by (simp add: res length_grid)
  have ids: "map wr_id results = grid wellId 8 6"
    by (simp add: res map_grid wellBody_fields)
  have dist: "distinct (map wr_id results)"
    unfolding ids grid_wellId by simp
  have nth: "\<forall>row < 8. \<forall>col < 6.
             wr_id (results ! (row * 6 + col)) = char_of (65 + row) # decimal (col + 1)
           \<and> wr_row (results ! (row * 6 + col)) = row
           \<and> wr_col (results ! (row * 6 + col)) = col"
    by (simp add: res nth_grid wellBody_fields wellId_def)
  show ?thesis
    using len ids dist nth unfolding grid_wellId by blast
qed

theorem processWellPlate_output_shape_witness:
  "length (projr (processWellPlate (Drawn demoCanvas) demoA1 demoH6 demoMin demoMax)) = 48
   \<and> map wr_id (projr (processWellPlate (Drawn demoCanvas) demoA1 demoH6 demoMin demoMax)) =
     [''A1'', ''A2'', ''A3'', ''A4'', ''A5'', ''A6'',
      ''B1'', ''B2'', ''B3'', ''B4'', ''B5'', ''B6'',
      ''C1'', ''C2'', ''C3'', ''C4'', ''C5'', ''C6'',
      ''D1'', ''D2'', ''D3'', ''D4'', ''D5'', ''D6'',
      ''E1'', ''E2'', ''E3'', ''E4'', ''E5'', ''E6'',
      ''F1'', ''F2'', ''F3'', ''F4'', ''F5'', ''F6'',
      ''G1'', ''G2'', ''G3'', ''G4'', ''G5'', ''G6'',
      ''H1'', ''H2'', ''H3'', ''H4'', ''H5'', ''H6'']"
  using processWellPlate_output_shape [OF demo_resolves] by blast

subsection \<open>Failure\<close>

text \<open>
  Claim C4. Once the image is on a canvas, the run rejects with the reference-colour error
  exactly when one of the two reference points samples no pixel; that error arises in no
  other way; and every run either rejects with one error or resolves with a list, never
  both, and a list it resolves with has all 48 entries.
\<close>

theorem calibration_failure_iff:
  "(processWellPlate (Drawn ctx) a1 h6 minColorPoint maxColorPoint = Inl CouldNotSampleReferenceColors
      \<longleftrightarrow> referencePixels ctx a1 h6 minColorPoint = [] \<or> referencePixels ctx a1 h6 maxColorPoint = [])
   \<and> (processWellPlate src a1 h6 minColorPoint maxColorPoint = Inl CouldNotSampleReferenceColors
        \<longrightarrow> (\<exists>c. src = Drawn c))
   \<and> ((\<exists>e. processWellPlate src a1 h6 minColorPoint maxColorPoint = Inl e)
        \<noteq> (\<exists>results. processWellPlate src a1 h6 minColorPoint maxColorPoint = Inr results))
   \<and> (\<forall>results. processWellPlate src a1 h6 minColorPoint maxColorPoint = Inr results
        \<longrightarrow> length results = 48)"
proof -
  have a: "processWellPlate (Drawn ctx) a1 h6 minColorPoint maxColorPoint = Inl CouldNotSampleReferenceColors
      \<longleftrightarrow> referencePixels ctx a1 h6 minColorPoint = [] \<or> referencePixels ctx a1 h6 maxColorPoint = []"
    by (simp add: processWellPlate_Drawn)
  have b: "processWellPlate src a1 h6 minColorPoint maxColorPoint = Inl CouldNotSampleReferenceColors
        \<longrightarrow> (\<exists>c. src = Drawn c)"
    by (cases src) (simp_all add: processWellPlate_def)
  have c: "(\<exists>e. processWellPlate src a1 h6 minColorPoint maxColorPoint = Inl e)
        \<noteq> (\<exists>results. processWellPlate src a1 h6 minColorPoint maxColorPoint = Inr results)"
    by (cases "processWellPlate src a1 h6 minColorPoint maxColorPoint") simp_all
  have d: "\<forall>results. processWellPlate src a1 h6 minColorPoint maxColorPoint = Inr results
        \<longrightarrow> length results = 48"
    by (auto dest!: processWellPlate_InrD simp: length_grid NUM_ROWS_def NUM_COLS_def)
  from a b c d show ?thesis by blast
qed

theorem calibration_failure_iff_witness:
  "referencePixels taintedCanvas demoA1 demoH6 demoMin = []
   \<and> processWellPlate (Drawn taintedCanvas) demoA1 demoH6 demoMin demoMax
       = Inl CouldNotSampleReferenceColors
   \<and> referencePixels demoCanvas demoA1 demoH6 demoMin \<noteq> []
   \<and> referencePixels demoCanvas demoA1 demoH6 demoMax \<noteq> []
   \<and> processWellPlate (Drawn demoCanvas) demoA1 demoH6 demoMin demoMax
       \<noteq> Inl CouldNotSampleReferenceColors
   \<and> length (projr (processWellPlate (Drawn demoCanvas) demoA1 demoH6 demoMin demoMax)) = 48"
  using calibration_failure_iff [of taintedCanvas demoA1 demoH6 demoMin demoMax "Drawn taintedCanvas"]
    calibration_failure_iff [of demoCanvas demoA1 demoH6 demoMin demoMax "Drawn demoCanvas"]
    demo_resolves
  by (simp add: referencePixels_def getPixelData_throws demo_min_pixels [unfolded referencePixels_def]
      demo_max_pixels [unfolded referencePixels_def])

lemma result_nth:
  assumes "processWellPlate (Drawn ctx) a1 h6 mn mx = Inr results" "row < 8" "col < 6"
  shows "results ! (row * 6 + col)
           = wellBody ctx a1 (gridDx a1 h6) (gridDy a1 h6) (gridRadius a1 h6)
               (plateAxis ctx a1 h6 mn mx) row col"
proof -
  from processWellPlate_InrD [OF assms(1)]
  have "results = grid (wellBody ctx a1 (gridDx a1 h6) (gridDy a1 h6) (gridRadius a1 h6)
                          (plateAxis ctx a1 h6 mn mx)) 8 6"
    by (simp add: NUM_ROWS_def NUM_COLS_def)
  then show ?thesis using assms(2,3) by (simp add: nth_grid)
qed

lemma wellBody_intensity:
  "wr_intensity (wellBody ctx a1 dx dy radius axis row col)
     = fst (scoreWell (getPixelData ctx (pt_x a1 + real col * dx) (pt_y a1 + real row * dy) radius)
              (wr_avgColor (wellBody ctx a1 dx dy radius axis row col))
              (ax_labMin axis) (ax_gradientVector axis) (ax_gradientMagSq axis))"
  "wr_cellCount (wellBody ctx a1 dx dy radius axis row col)
     = snd (scoreWell (getPixelData ctx (pt_x a1 + real col * dx) (pt_y a1 + real row * dy) radius)
              (wr_avgColor (wellBody ctx a1 dx dy radius axis row col))
              (ax_labMin axis) (ax_gradientVector axis) (ax_gradientMagSq axis))"
  by (simp_all add: wellBody_def Let_def)

lemma projectOnGradient_fst:
  "fst (projectOnGradient labMin gv magSq labWell)
     = max 0 (min 1 (dotLab (subLab labWell labMin) gv / magSq))"
  by (simp add: projectOnGradient_def Let_def)

lemma projectOnGradient_snd:
  "snd (projectOnGradient labMin gv magSq labWell)
     = (fst (projectOnGradient labMin gv magSq labWell)) ^ 2 * 10000"
  by (simp add: projectOnGradient_def Let_def)

lemma scoreWell_guarded:
  "pixels \<noteq> [] \<Longrightarrow> 0.000001 < magSq \<Longrightarrow>
     scoreWell pixels avgColor labMin gv magSq = projectOnGradient labMin gv magSq (rgbToLab avgColor)"
  by (simp add: scoreWell_def)

lemma scoreWell_degenerate:
  "pixels = [] \<or> magSq \<le> 0.000001 \<Longrightarrow> scoreWell pixels avgColor labMin gv magSq = (0, 0)"
  by (auto simp: scoreWell_def)

subsection \<open>The scorer\<close>

text \<open>
  Claim C1. In a run that resolves, let \<open>labMin\<close> and \<open>labMax\<close> be the Lab colours of the
  estimates at the two reference points, \<open>(vl, va, vb)\<close> the channel-wise difference
  \<open>labMax - labMin\<close> and \<open>magSq = vl\<^sup>2 + va\<^sup>2 + vb\<^sup>2\<close>. For a well whose sample has at
  least one pixel, with \<open>magSq\<close> above \<open>10\<^sup>-\<^sup>6\<close> and \<open>labWell\<close> the Lab colour of the well's
  estimate, the intensity is
  \<open>((labWell.l - labMin.l) * vl + (labWell.a - labMin.a) * va + (labWell.b - labMin.b) * vb) / magSq\<close>
  clamped to \<open>[0, 1]\<close>; the cell count is the square of the intensity times 10000; so an
  intensity of one half gives a count of exactly 2500.
\<close>

theorem scorer_projection:
  assumes "processWellPlate (Drawn ctx) a1 h6 minColorPoint maxColorPoint = Inr results"
      and "row < 8" and "col < 6"
      and "w = results ! (row * 6 + col)"
      and "labMin = rgbToLab (getRobustAverageColor (referencePixels ctx a1 h6 minColorPoint))"
      and "labMax = rgbToLab (getRobustAverageColor (referencePixels ctx a1 h6 maxColorPoint))"
      and "vl = lab_l labMax - lab_l labMin"
      and "va = lab_a labMax - lab_a labMin"
      and "vb = lab_b labMax - lab_b labMin"
      and "magSq = vl * vl + va * va + vb * vb"
      and "labWell = rgbToLab (wr_avgColor w)"
      and "wellPixels ctx a1 h6 row col \<noteq> []"
      and "magSq > 0.000001"
  shows "wr_avgColor w = getRobustAverageColor (wellPixels ctx a1 h6 row col)
       \<and> wr_intensity w
           = max 0 (min 1 (((lab_l labWell - lab_l labMin) * vl
                             + (lab_a labWell - lab_a labMin) * va
                             + (lab_b labWell - lab_b labMin) * vb) / magSq))
       \<and> 0 \<le> wr_intensity w \<and> wr_intensity w \<le> 1
       \<and> wr_cellCount w = wr_intensity w * wr_intensity w * 10000
       \<and> (wr_intensity w = 0.5 \<longrightarrow> wr_cellCount w = 2500)"
proof -
  define axis where "axis = plateAxis ctx a1 h6 minColorPoint maxColorPoint"
  have w: "w = wellBody ctx a1 (gridDx a1 h6) (gridDy a1 h6) (gridRadius a1 h6) axis row col"
    using result_nth [OF assms(1,2,3)] assms(4) axis_def by simp
  have ax: "ax_labMin axis = labMin"
      "ax_gradientVector axis = \<lparr>lab_l = vl, lab_a = va, lab_b = vb\<rparr>"
      "ax_gradientMagSq axis = magSq"
    by (simp_all add: axis_def plateAxis_def buildAxis_def Let_def subLab_def power2_eq_square
        assms(5,6,7,8,9,10))
  have avg: "wr_avgColor w = getRobustAverageColor (wellPixels ctx a1 h6 row col)"
    by (simp add: w wellBody_fields wellPixels_def)
  have sc: "scoreWell (wellPixels ctx a1 h6 row col) (wr_avgColor w) (ax_labMin axis)
              (ax_gradientVector axis) (ax_gradientMagSq axis)
            = projectOnGradient (ax_labMin axis) (ax_gradientVector axis) (ax_gradientMagSq axis)
                (rgbToLab (wr_avgColor w))"
    using assms(12,13) unfolding ax(3) by (rule scoreWell_guarded)
  have "wr_intensity w
           = fst (projectOnGradient labMin \<lparr>lab_l = vl, lab_a = va, lab_b = vb\<rparr> magSq labWell)"
    using sc by (simp add: w wellBody_intensity wellPixels_def ax assms(11))
  then have int: "wr_intensity w
           = max 0 (min 1 (((lab_l labWell - lab_l labMin) * vl
                             + (lab_a labWell - lab_a labMin) * va
                             + (lab_b labWell - lab_b labMin) * vb) / magSq))"
    by (simp add: projectOnGradient_def Let_def dotLab_def subLab_def)
  have "wr_cellCount w = (wr_intensity w) ^ 2 * 10000"
    using sc by (simp add: w wellBody_intensity wellPixels_def projectOnGradient_snd)
  then have cnt: "wr_cellCount w = wr_intensity w * wr_intensity w * 10000"
    by (simp add: power2_eq_square)
  have rng: "0 \<le> wr_intensity w" "wr_intensity w \<le> 1"
    unfolding int by simp_all
  have half: "wr_intensity w = 0.5 \<longrightarrow> wr_cellCount w = 2500"
  proof
    assume h: "wr_intensity w = 0.5"
    show "wr_cellCount w = 2500"
      unfolding cnt h by simp
  qed
  show ?thesis
    using avg int cnt rng half by blast
qed

lemma demoA1_xy: "pt_x demoA1 = 10" "pt_y demoA1 = 10"
  by (simp_all add: demoA1_def)

lemma demo_well_pixels:
  "wellPixels demoCanvas demoA1 demoH6 0 0 = [black, black, black]"
  "wellPixels demoCanvas demoA1 demoH6 7 5 = [white, white, white]"
  using demo_black_sample [of 10 10 "3 / 10"] demo_white_sample [of 85 17 "3 / 10"]
  by (simp_all add: wellPixels_def demo_steps demo_radius demoA1_xy)

lemma demo_swapped_resolves:
  "processWellPlate (Drawn demoCanvas) demoA1 demoH6 demoMax demoMin
     = Inr (projr (processWellPlate (Drawn demoCanvas) demoA1 demoH6 demoMax demoMin))"
  by (simp add: processWellPlate_Drawn demo_min_pixels demo_max_pixels)

text \<open>
  The example with the white reference as the origin and the black one as the full
  reference: the origin is not the zero Lab colour, the black well A1 has intensity 1 and
  count 10000, the white well H6 has intensity 0 and count 0.
\<close>

theorem scorer_projection_witness:
  "wellPixels demoCanvas demoA1 demoH6 0 0 \<noteq> []
   \<and> wellPixels demoCanvas demoA1 demoH6 7 5 \<noteq> []
   \<and> 100 \<le> lab_l (rgbToLab (getRobustAverageColor (referencePixels demoCanvas demoA1 demoH6 demoMax)))
   \<and> wr_intensity (projr (processWellPlate (Drawn demoCanvas) demoA1 demoH6 demoMax demoMin)
                      ! (0 * 6 + 0)) = 1
   \<and> wr_cellCount (projr (processWellPlate (Drawn demoCanvas) demoA1 demoH6 demoMax demoMin)
                      ! (0 * 6 + 0)) = 10000
   \<and> wr_intensity (projr (processWellPlate (Drawn demoCanvas) demoA1 demoH6 demoMax demoMin)
                      ! (7 * 6 + 5)) = 0
   \<and> wr_cellCount (projr (processWellPlate (Drawn demoCanvas) demoA1 demoH6 demoMax demoMin)
                      ! (7 * 6 + 5)) = 0"
proof -
  let ?R = "projr (processWellPlate (Drawn demoCanvas) demoA1 demoH6 demoMax demoMin)"
  let ?A = "?R ! (0 * 6 + 0)" and ?H = "?R ! (7 * 6 + 5)"
  define L where "L = lab_l (rgbToLab white)"
  define A where "A = lab_a (rgbToLab white)"
  define B where "B = lab_b (rgbToLab white)"
  define M where "M = (0 - L) * (0 - L) + (0 - A) * (0 - A) + (0 - B) * (0 - B)"
  have L: "100 \<le> L"
    unfolding L_def by (rule lab_l_white)
  have Meq: "M = L * L + A * A + B * B"
    unfolding M_def by simp
  have "100 * 100 \<le> L * L"
    using L by (intro mult_mono) simp_all
  moreover have "0 \<le> A * A" "0 \<le> B * B"
    by simp_all
  ultimately have M: "10000 \<le> M"
    unfolding Meq by linarith
  have Mpos: "M > 0.000001"
    by (rule less_le_trans [OF _ M]) simp
  have labMin: "rgbToLab white
      = rgbToLab (getRobustAverageColor (referencePixels demoCanvas demoA1 demoH6 demoMax))"
    by (simp only: demo_max_pixels demo_estimates)
  have labMax: "rgbToLab black
      = rgbToLab (getRobustAverageColor (referencePixels demoCanvas demoA1 demoH6 demoMin))"
    by (simp only: demo_min_pixels demo_estimates)
  have vl: "0 - L = lab_l (rgbToLab black) - lab_l (rgbToLab white)"
    and va: "0 - A = lab_a (rgbToLab black) - lab_a (rgbToLab white)"
    and vb: "0 - B = lab_b (rgbToLab black) - lab_b (rgbToLab white)"
    by (simp_all add: rgbToLab_black L_def A_def B_def)
  have pxA: "wellPixels demoCanvas demoA1 demoH6 0 0 \<noteq> []"
    and pxH: "wellPixels demoCanvas demoA1 demoH6 7 5 \<noteq> []"
    by (simp_all add: demo_well_pixels)
  have rcA: "(0::nat) < 8" "(0::nat) < 6" and rcH: "(7::nat) < 8" "(5::nat) < 6"
    by simp_all
  note instA = scorer_projection [OF demo_swapped_resolves rcA refl labMin labMax vl va vb
      M_def refl pxA Mpos]
  note instH = scorer_projection [OF demo_swapped_resolves rcH refl labMin labMax vl va vb
      M_def refl pxH Mpos]
  from instA have "wr_avgColor ?A = getRobustAverageColor (wellPixels demoCanvas demoA1 demoH6 0 0)"
    by blast
  then have avgA: "wr_avgColor ?A = black"
    by (simp only: demo_well_pixels demo_estimates)
  from instH have "wr_avgColor ?H = getRobustAverageColor (wellPixels demoCanvas demoA1 demoH6 7 5)"
    by blast
  then have avgH: "wr_avgColor ?H = white"
    by (simp only: demo_well_pixels demo_estimates)
  from instA have "wr_intensity ?A
      = max 0 (min 1 (((lab_l (rgbToLab (wr_avgColor ?A)) - lab_l (rgbToLab white)) * (0 - L)
                        + (lab_a (rgbToLab (wr_avgColor ?A)) - lab_a (rgbToLab white)) * (0 - A)
                        + (lab_b (rgbToLab (wr_avgColor ?A)) - lab_b (rgbToLab white)) * (0 - B)) / M))"
    by blast
  then have "wr_intensity ?A = max 0 (min 1 (M / M))"
    unfolding avgA rgbToLab_black L_def [symmetric] A_def [symmetric] B_def [symmetric]
      Lab.simps M_def .
  then have oneA: "wr_intensity ?A = 1"
    using Mpos by simp
  from instA have "wr_cellCount ?A = wr_intensity ?A * wr_intensity ?A * 10000"
    by blast
  then have cntA: "wr_cellCount ?A = 10000"
    unfolding oneA by simp
  from instH have "wr_intensity ?H
      = max 0 (min 1 (((lab_l (rgbToLab (wr_avgColor ?H)) - lab_l (rgbToLab white)) * (0 - L)
                        + (lab_a (rgbToLab (wr_avgColor ?H)) - lab_a (rgbToLab white)) * (0 - A)
                        + (lab_b (rgbToLab (wr_avgColor ?H)) - lab_b (rgbToLab white)) * (0 - B)) / M))"
    by blast
  then have zeroH: "wr_intensity ?H = 0"
    unfolding avgH by simp
  from instH have "wr_cellCount ?H = wr_intensity ?H * wr_intensity ?H * 10000"
    by blast
  then have cntH: "wr_cellCount ?H = 0"
    unfolding zeroH by simp
  have org: "100 \<le> lab_l (rgbToLab (getRobustAverageColor
                        (referencePixels demoCanvas demoA1 demoH6 demoMax)))"
    unfolding labMin [symmetric] by (rule lab_l_white)
  show ?thesis
    using pxA pxH org oneA cntA zeroH cntH by blast
qed

subsection \<open>Degenerate wells\<close>

lemma plateAxis_same:
  assumes "getRobustAverageColor (referencePixels ctx a1 h6 mn)
             = getRobustAverageColor (referencePixels ctx a1 h6 mx)"
  shows "ax_gradientMagSq (plateAxis ctx a1 h6 mn mx) = 0"
  by (simp add: plateAxis_def buildAxis_fields assms dotLab_def subLab_def)

lemma wellBody_degenerate:
  assumes "getPixelData ctx (pt_x a1 + real col * dx) (pt_y a1 + real row * dy) radius = []
           \<or> ax_gradientMagSq axis \<le> 0.000001"
  shows "wr_intensity (wellBody ctx a1 dx dy radius axis row col) = 0"
    and "wr_cellCount (wellBody ctx a1 dx dy radius axis row col) = 0"
  using scoreWell_degenerate [OF assms] by (simp_all add: wellBody_intensity)

lemma index_split:
  fixes k :: nat
  assumes "k < 48"
  shows "k div 6 < 8" "k mod 6 < 6" "k = (k div 6) * 6 + k mod 6"
  using assms by simp_all

text \<open>
  Claim C3. When the two reference samples are non-empty the run resolves with 48 entries
  whatever the wells sample. A well whose sample is empty, or any well when the squared
  magnitude of the axis is at most \<open>10\<^sup>-\<^sup>6\<close>, has intensity 0 and cell count 0; every
  entry is the loop body of its own row and column, so the other wells are scored as they
  would be otherwise. When the two reference points yield the same colour, the magnitude is
  0 and all 48 entries have intensity 0 and cell count 0.
\<close>

theorem degenerate_well_scores_zero:
  assumes "referencePixels ctx a1 h6 minColorPoint \<noteq> []"
      and "referencePixels ctx a1 h6 maxColorPoint \<noteq> []"
  shows "\<exists>results.
          processWellPlate (Drawn ctx) a1 h6 minColorPoint maxColorPoint = Inr results
        \<and> length results = 48
        \<and> (\<forall>row < 8. \<forall>col < 6.
              (wellPixels ctx a1 h6 row col = []
                 \<or> ax_gradientMagSq (plateAxis ctx a1 h6 minColorPoint maxColorPoint) \<le> 0.000001
               \<longrightarrow> wr_intensity (results ! (row * 6 + col)) = 0
                 \<and> wr_cellCount (results ! (row * 6 + col)) = 0)
            \<and> results ! (row * 6 + col)
                 = wellBody ctx a1 (gridDx a1 h6) (gridDy a1 h6) (gridRadius a1 h6)
                     (plateAxis ctx a1 h6 minColorPoint maxColorPoint) row col)
        \<and> (getRobustAverageColor (referencePixels ctx a1 h6 minColorPoint)
               = getRobustAverageColor (referencePixels ctx a1 h6 maxColorPoint)
             \<longrightarrow> (\<forall>k < 48. wr_intensity (results ! k) = 0 \<and> wr_cellCount (results ! k) = 0))"
proof -
  let ?axis = "plateAxis ctx a1 h6 minColorPoint maxColorPoint"
  let ?body = "wellBody ctx a1 (gridDx a1 h6) (gridDy a1 h6) (gridRadius a1 h6) ?axis"
  define results where "results = grid ?body NUM_ROWS NUM_COLS"
  have run: "processWellPlate (Drawn ctx) a1 h6 minColorPoint maxColorPoint = Inr results"
    using assms by (simp add: processWellPlate_Drawn results_def)
  have len: "length results = 48"
    by (simp add: results_def length_grid NUM_ROWS_def NUM_COLS_def)
  have nth: "results ! (row * 6 + col) = ?body row col" if "row < 8" "col < 6" for row col
    using result_nth [OF run that] .
  have zero: "wr_intensity (results ! (row * 6 + col)) = 0
                \<and> wr_cellCount (results ! (row * 6 + col)) = 0"
    if "row < 8" "col < 6"
      and "wellPixels ctx a1 h6 row col = [] \<or> ax_gradientMagSq ?axis \<le> 0.000001"
    for row col
    using that(3) wellBody_degenerate [of ctx a1 col "gridDx a1 h6" row "gridDy a1 h6"
        "gridRadius a1 h6" ?axis]
    by (simp add: nth [OF that(1,2)] wellPixels_def)
  have same: "wr_intensity (results ! k) = 0 \<and> wr_cellCount (results ! k) = 0"
    if eq: "getRobustAverageColor (referencePixels ctx a1 h6 minColorPoint)
               = getRobustAverageColor (referencePixels ctx a1 h6 maxColorPoint)"
      and k: "k < 48" for k
  proof -
    have "ax_gradientMagSq ?axis \<le> 0.000001"
      by (simp add: plateAxis_same [OF eq])
    then have "wr_intensity (results ! ((k div 6) * 6 + k mod 6)) = 0
                \<and> wr_cellCount (results ! ((k div 6) * 6 + k mod 6)) = 0"
      using index_split(1,2) [OF k] by (intro zero) simp_all
    then show ?thesis
      using index_split(3) [OF k] by simp
  qed
  show ?thesis
    using run len nth zero same by blast
qed

lemma demo_same_resolves:
  "processWellPlate (Drawn demoCanvas) demoA1 demoH6 demoMin demoMin
     = Inr (projr (processWellPlate (Drawn demoCanvas) demoA1 demoH6 demoMin demoMin))"
  by (simp add: processWellPlate_Drawn demo_min_pixels)

theorem degenerate_well_scores_zero_witness:
  "referencePixels demoCanvas demoA1 demoH6 demoMin \<noteq> []
   \<and> ax_gradientMagSq (plateAxis demoCanvas demoA1 demoH6 demoMin demoMin) \<le> 0.000001
   \<and> wr_intensity (projr (processWellPlate (Drawn demoCanvas) demoA1 demoH6 demoMin demoMin) ! 47) = 0
   \<and> wr_cellCount (projr (processWellPlate (Drawn demoCanvas) demoA1 demoH6 demoMin demoMin) ! 47) = 0"
proof -
  have px: "referencePixels demoCanvas demoA1 demoH6 demoMin \<noteq> []"
    by (simp add: demo_min_pixels)
  have mag: "ax_gradientMagSq (plateAxis demoCanvas demoA1 demoH6 demoMin demoMin) \<le> 0.000001"
    by (simp add: plateAxis_same)
  from degenerate_well_scores_zero [OF px px] obtain results where
    run: "processWellPlate (Drawn demoCanvas) demoA1 demoH6 demoMin demoMin = Inr results"
    and z: "\<forall>k < 48. wr_intensity (results ! k) = 0 \<and> wr_cellCount (results ! k) = 0"
    by blast
  have "projr (processWellPlate (Drawn demoCanvas) demoA1 demoH6 demoMin demoMin) = results"
    by (simp add: run)
  then show ?thesis
    using px mag z by simp
qed

subsection \<open>Grid geometry\<close>

text \<open>
  Claim C8. The column step is \<open>(h6.x - a1.x) / 5\<close> and the row step \<open>(h6.y - a1.y) / 7\<close>;
  in a run that resolves, the entry of \<open>(row, col)\<close> has its centre at \<open>a1\<close> plus \<open>col\<close>
  column steps in \<open>x\<close> and \<open>row\<close> row steps in \<open>y\<close>, and its colour is estimated from the
  pixels sampled around that centre with the radius
  \<open>min(|column step|, |row step|) * WELL_RADIUS_FACTOR\<close>, the radius that the reference
  points are sampled with too; the factor is 0.30, between 0.25 and 0.35 and below 0.5.
\<close>

theorem grid_geometry:
  assumes "processWellPlate (Drawn ctx) a1 h6 minColorPoint maxColorPoint = Inr results"
      and "row < 8" and "col < 6"
      and "columnStep = (pt_x h6 - pt_x a1) / 5"
      and "rowStep = (pt_y h6 - pt_y a1) / 7"
      and "radius = min \<bar>columnStep\<bar> \<bar>rowStep\<bar> * WELL_RADIUS_FACTOR"
  shows "wr_center (results ! (row * 6 + col))
           = \<lparr>pt_x = pt_x a1 + real col * columnStep, pt_y = pt_y a1 + real row * rowStep\<rparr>
       \<and> wr_avgColor (results ! (row * 6 + col))
           = getRobustAverageColor
               (getPixelData ctx (pt_x a1 + real col * columnStep) (pt_y a1 + real row * rowStep)
                  radius)
       \<and> referencePixels ctx a1 h6 minColorPoint
           = getPixelData ctx (pt_x minColorPoint) (pt_y minColorPoint) radius
       \<and> referencePixels ctx a1 h6 maxColorPoint
           = getPixelData ctx (pt_x maxColorPoint) (pt_y maxColorPoint) radius
       \<and> WELL_RADIUS_FACTOR = 0.30
       \<and> 0.25 \<le> WELL_RADIUS_FACTOR \<and> WELL_RADIUS_FACTOR \<le> 0.35 \<and> WELL_RADIUS_FACTOR < 0.5"
proof -
  have dx: "gridDx a1 h6 = columnStep" and dy: "gridDy a1 h6 = rowStep"
    by (simp_all add: gridDx_def gridDy_def NUM_ROWS_def NUM_COLS_def assms(4,5))
  have rad: "gridRadius a1 h6 = radius"
    by (simp add: gridRadius_def dx dy assms(6))
  have nth: "results ! (row * 6 + col)
               = wellBody ctx a1 columnStep rowStep radius
                   (plateAxis ctx a1 h6 minColorPoint maxColorPoint) row col"
    using result_nth [OF assms(1,2,3)] by (simp only: dx dy rad)
  show ?thesis
    by (simp add: nth wellBody_fields referencePixels_def rad WELL_RADIUS_FACTOR_def)
qed

theorem grid_geometry_witness:
  "wr_center (projr (processWellPlate (Drawn demoCanvas) demoA1 demoH6 demoMin demoMax) ! (7 * 6 + 5))
     = \<lparr>pt_x = 85, pt_y = 17\<rparr>
   \<and> wr_center (projr (processWellPlate (Drawn demoCanvas) demoA1 demoH6 demoMin demoMax) ! (3 * 6 + 3))
     = \<lparr>pt_x = 55, pt_y = 13\<rparr>"
proof -
  have r1: "(7::nat) < 8" "(5::nat) < 6" and r2: "(3::nat) < 8" "(3::nat) < 6"
    by simp_all
  show ?thesis
    using grid_geometry [OF demo_resolves r1 refl refl refl]
      grid_geometry [OF demo_resolves r2 refl refl refl]
    by (simp add: demoA1_def demoH6_def)
qed

subsection \<open>Monotonicity of the scorer\<close>

text \<open>
  Claim C9. For a fixed axis with squared magnitude above \<open>10\<^sup>-\<^sup>6\<close> and two Lab colours
  \<open>X\<close> and \<open>Y\<close> whose dot products with the axis vector (taken from the origin) lie in
  \<open>[0, magnitude]\<close>, the one of \<open>X\<close> below the one of \<open>Y\<close>, the intensity of \<open>X\<close> is at
  most the intensity of \<open>Y\<close>; so it is for two wells with non-empty samples whose average
  colours have the Lab colours \<open>X\<close> and \<open>Y\<close>.
\<close>

theorem intensity_monotone:
  assumes "gradientMagSq > 0.000001"
      and "dotLab (subLab X labMin) gradientVector < dotLab (subLab Y labMin) gradientVector"
      and "0 \<le> dotLab (subLab X labMin) gradientVector"
      and "dotLab (subLab Y labMin) gradientVector \<le> gradientMagSq"
  shows "fst (projectOnGradient labMin gradientVector gradientMagSq X)
           \<le> fst (projectOnGradient labMin gradientVector gradientMagSq Y)
       \<and> (\<forall>pixelsX pixelsY colorX colorY.
             pixelsX \<noteq> [] \<and> pixelsY \<noteq> [] \<and> rgbToLab colorX = X \<and> rgbToLab colorY = Y
             \<longrightarrow> fst (scoreWell pixelsX colorX labMin gradientVector gradientMagSq)
                   \<le> fst (scoreWell pixelsY colorY labMin gradientVector gradientMagSq))"
proof -
  have pos: "0 < gradientMagSq"
    using assms(1) by simp
  have "dotLab (subLab X labMin) gradientVector / gradientMagSq
          \<le> dotLab (subLab Y labMin) gradientVector / gradientMagSq"
    using assms(2) pos by (simp add: divide_right_mono)
  then have le: "fst (projectOnGradient labMin gradientVector gradientMagSq X)
           \<le> fst (projectOnGradient labMin gradientVector gradientMagSq Y)"
    unfolding projectOnGradient_fst by (intro max.mono min.mono) simp_all
  then show ?thesis
    using assms(1) by (auto simp: scoreWell_guarded)
qed

theorem intensity_monotone_witness:
  "fst (projectOnGradient \<lparr>lab_l = 10, lab_a = 0, lab_b = 0\<rparr> \<lparr>lab_l = 50, lab_a = 0, lab_b = 0\<rparr> 2500
          \<lparr>lab_l = 20, lab_a = 3, lab_b = 4\<rparr>)
     \<le> fst (projectOnGradient \<lparr>lab_l = 10, lab_a = 0, lab_b = 0\<rparr> \<lparr>lab_l = 50, lab_a = 0, lab_b = 0\<rparr> 2500
          \<lparr>lab_l = 40, lab_a = - 1, lab_b = 2\<rparr>)"
  using intensity_monotone [of 2500 "\<lparr>lab_l = 20, lab_a = 3, lab_b = 4\<rparr>"
      "\<lparr>lab_l = 10, lab_a = 0, lab_b = 0\<rparr>" "\<lparr>lab_l = 50, lab_a = 0, lab_b = 0\<rparr>"
      "\<lparr>lab_l = 40, lab_a = - 1, lab_b = 2\<rparr>"]
  by (simp add: dotLab_def subLab_def)

subsection \<open>The radius floor of the sampler\<close>

lemma gridRadius_same: "gridDx a a = 0" "gridDy a a = 0" "gridRadius a a = 0"
  by (simp_all add: gridRadius_def gridDx_def gridDy_def)

lemma canvasOf_sample_small:
  assumes "radius < 1 / 2"
  shows "length (getPixelData (canvasOf w h pix) x y radius) = 3"
  by (simp add: getPixelData_small [OF assms] canvasOf_block inDisc_iff)

text \<open>
  Claim C10. The sampler asks the canvas for the square of side \<open>2 * max(1, round(radius))\<close>
  whose corner is the rounded centre minus that effective radius, and the effective radius
  is at least 1. A requested radius below one half, in particular the radius 0 of a grid
  with \<open>a1 = h6\<close>, becomes 1: the sampler reads a block of 2 by 2 pixels, and of the four
  pixels of such a block it returns the three within distance 1 of the block's centre, so
  on a canvas that can be read it returns three pixels, not none.
\<close>

theorem sampler_radius_floor:
  "getPixelData ctx x y radius =
     (case ctx (Math_round (x - real_of_int (max 1 (Math_round radius))))
               (Math_round (y - real_of_int (max 1 (Math_round radius))))
               (max 1 (Math_round radius) * 2) (max 1 (Math_round radius) * 2) of
        None \<Rightarrow> []
      | Some data \<Rightarrow> pixelLoop (max 1 (Math_round radius)) data 0 [])
   \<and> 1 \<le> max 1 (Math_round radius)
   \<and> (radius < 1 / 2 \<longrightarrow>
         max 1 (Math_round radius) = 1
       \<and> getPixelData ctx x y radius =
           (case ctx (Math_round (x - 1)) (Math_round (y - 1)) 2 2 of
              None \<Rightarrow> [] | Some data \<Rightarrow> pixelLoop 1 data 0 [])
       \<and> (\<forall>p0 p1 p2 p3. ctx (Math_round (x - 1)) (Math_round (y - 1)) 2 2 = Some [p0, p1, p2, p3]
             \<longrightarrow> getPixelData ctx x y radius = [rgbOf p1, rgbOf p2, rgbOf p3])
       \<and> length (getPixelData (canvasOf w h pix) x y radius) = 3)
   \<and> gridRadius a a = 0
   \<and> length (getPixelData (canvasOf w h pix) x y (gridRadius a a)) = 3"
proof -
  have a: "getPixelData ctx x y radius =
     (case ctx (Math_round (x - real_of_int (max 1 (Math_round radius))))
               (Math_round (y - real_of_int (max 1 (Math_round radius))))
               (max 1 (Math_round radius) * 2) (max 1 (Math_round radius) * 2) of
        None \<Rightarrow> []
      | Some data \<Rightarrow> pixelLoop (max 1 (Math_round radius)) data 0 [])"
    by (simp add: getPixelData_def Let_def)
  have b: "radius < 1 / 2 \<longrightarrow>
         max 1 (Math_round radius) = 1
       \<and> getPixelData ctx x y radius =
           (case ctx (Math_round (x - 1)) (Math_round (y - 1)) 2 2 of
              None \<Rightarrow> [] | Some data \<Rightarrow> pixelLoop 1 data 0 [])
       \<and> (\<forall>p0 p1 p2 p3. ctx (Math_round (x - 1)) (Math_round (y - 1)) 2 2 = Some [p0, p1, p2, p3]
             \<longrightarrow> getPixelData ctx x y radius = [rgbOf p1, rgbOf p2, rgbOf p3])
       \<and> length (getPixelData (canvasOf w h pix) x y radius) = 3"
    using Math_round_small [of radius] getPixelData_small [of radius ctx x y]
      getPixelData_block [of radius ctx x y] canvasOf_sample_small [of radius w h pix x y]
    by blast
  have c: "length (getPixelData (canvasOf w h pix) x y (gridRadius a a)) = 3"
    by (simp add: gridRadius_same canvasOf_sample_small)
  have d: "1 \<le> max 1 (Math_round radius)"
    by simp
  have e: "gridRadius a a = 0"
    by (rule gridRadius_same)
  show ?thesis
    using a b c d e by blast
qed

theorem sampler_radius_floor_witness:
  "(0::real) < 1 / 2
   \<and> demoCanvas (Math_round (20 - 1)) (Math_round (20 - 1)) 2 2
       = Some [(0, 0, 0, 255), (0, 0, 0, 255), (0, 0, 0, 255), (0, 0, 0, 255)]
   \<and> getPixelData demoCanvas 20 20 0 = [black, black, black]"
proof -
  have r: "(0::real) < 1 / 2"
    by simp
  have rd: "Math_round (20 - 1) = 19"
    using Math_round_of_int [of 19] by simp
  have blk: "demoCanvas (Math_round (20 - 1)) (Math_round (20 - 1)) 2 2
       = Some [(0, 0, 0, 255), (0, 0, 0, 255), (0, 0, 0, 255), (0, 0, 0, 255)]"
    unfolding rd by (simp add: demoCanvas_def canvasOf_block twoTone_def)
  have "getPixelData demoCanvas 20 20 0
          = [rgbOf (0, 0, 0, 255), rgbOf (0, 0, 0, 255), rgbOf (0, 0, 0, 255)]"
    using sampler_radius_floor [of demoCanvas 20 20 0] r blk by blast
  then show ?thesis
    using r blk by (simp add: rgbOf_def black_def)
qed

subsection \<open>Equal landmarks\<close>

text \<open>
  Claim C5, as the code has it. With \<open>a1 = h6\<close> the two steps and the radius are 0, and
  the sampler reads blocks of 2 by 2 pixels. The run rejects with the reference-colour
  error only when a reference sample is empty, which on a canvas that can be read is never
  the case; otherwise it resolves with 48 entries, all centred at \<open>a1\<close>.
\<close>

theorem equal_landmarks_run:
  "gridDx a a = 0 \<and> gridDy a a = 0 \<and> gridRadius a a = 0
   \<and> (\<forall>p. referencePixels ctx a a p =
          (case ctx (Math_round (pt_x p - 1)) (Math_round (pt_y p - 1)) 2 2 of
             None \<Rightarrow> [] | Some data \<Rightarrow> pixelLoop 1 data 0 []))
   \<and> (processWellPlate (Drawn ctx) a a minColorPoint maxColorPoint = Inl CouldNotSampleReferenceColors
        \<longleftrightarrow> referencePixels ctx a a minColorPoint = [] \<or> referencePixels ctx a a maxColorPoint = [])
   \<and> (\<forall>results. processWellPlate (Drawn ctx) a a minColorPoint maxColorPoint = Inr results
        \<longrightarrow> length results = 48 \<and> (\<forall>k < 48. wr_center (results ! k) = a))
   \<and> (referencePixels ctx a a minColorPoint \<noteq> [] \<and> referencePixels ctx a a maxColorPoint \<noteq> []
        \<longrightarrow> (\<exists>results. processWellPlate (Drawn ctx) a a minColorPoint maxColorPoint = Inr results))
   \<and> (\<exists>results. processWellPlate (Drawn (canvasOf w h pix)) a a minColorPoint maxColorPoint
                   = Inr results)"
proof -
  have ref: "referencePixels ctx a a p =
          (case ctx (Math_round (pt_x p - 1)) (Math_round (pt_y p - 1)) 2 2 of
             None \<Rightarrow> [] | Some data \<Rightarrow> pixelLoop 1 data 0 [])" for p
    by (simp add: referencePixels_def gridRadius_same getPixelData_small)
  have iff: "processWellPlate (Drawn ctx) a a minColorPoint maxColorPoint = Inl CouldNotSampleReferenceColors
        \<longleftrightarrow> referencePixels ctx a a minColorPoint = [] \<or> referencePixels ctx a a maxColorPoint = []"
    by (simp add: processWellPlate_Drawn)
  have res: "length results = 48 \<and> (\<forall>k < 48. wr_center (results ! k) = a)"
    if run: "processWellPlate (Drawn ctx) a a minColorPoint maxColorPoint = Inr results"
    for results
  proof -
    have "length results = 48"
      using processWellPlate_InrD [OF run] by (auto simp: length_grid NUM_ROWS_def NUM_COLS_def)
    moreover have "wr_center (results ! k) = a" if k: "k < 48" for k
    proof -
      have "wr_center (results ! ((k div 6) * 6 + k mod 6)) = a"
        using result_nth [OF run index_split(1,2) [OF k]]
        by (simp add: wellBody_fields gridRadius_same)
      then show ?thesis
        using index_split(3) [OF k] by simp
    qed
    ultimately show ?thesis by blast
  qed
  have "length (referencePixels (canvasOf w h pix) a a p) = 3" for p
    by (simp add: referencePixels_def gridRadius_same canvasOf_sample_small)
  then have "referencePixels (canvasOf w h pix) a a p \<noteq> []" for p
    by (metis length_0_conv zero_neq_numeral)
  then have ok: "\<exists>results. processWellPlate (Drawn (canvasOf w h pix)) a a minColorPoint maxColorPoint
                   = Inr results"
    by (simp add: processWellPlate_Drawn)
  have gen: "referencePixels ctx a a minColorPoint \<noteq> [] \<and> referencePixels ctx a a maxColorPoint \<noteq> []
        \<longrightarrow> (\<exists>results. processWellPlate (Drawn ctx) a a minColorPoint maxColorPoint = Inr results)"
    by (simp add: processWellPlate_Drawn)
  show ?thesis
    using ref iff res gen ok by (simp add: gridRadius_same)
qed

theorem equal_landmarks_run_witness:
  "length (projr (processWellPlate (Drawn demoCanvas) demoA1 demoA1 demoMin demoMax)) = 48
   \<and> wr_center (projr (processWellPlate (Drawn demoCanvas) demoA1 demoA1 demoMin demoMax) ! 47) = demoA1"
proof -
  from equal_landmarks_run [of demoA1 demoCanvas demoMin demoMax 100 100 twoTone]
  obtain results where
    run: "processWellPlate (Drawn demoCanvas) demoA1 demoA1 demoMin demoMax = Inr results"
    unfolding demoCanvas_def by blast
  have "length results = 48 \<and> (\<forall>k < 48. wr_center (results ! k) = demoA1)"
    using equal_landmarks_run [of demoA1 demoCanvas demoMin demoMax 100 100 twoTone] run by blast
  then show ?thesis
    by (simp add: run)
qed

text \<open>
  The claim as the specification states it, that equal landmarks make the run fail with the
  reference-colour error, is false on the example photograph: with both landmarks at
  \<open>(10, 10)\<close> the run resolves with 48 entries.
\<close>

theorem equal_landmarks_counterexample:
  "gridRadius demoA1 demoA1 = 0
   \<and> processWellPlate (Drawn demoCanvas) demoA1 demoA1 demoMin demoMax
       \<noteq> Inl CouldNotSampleReferenceColors
   \<and> \<not> isl (processWellPlate (Drawn demoCanvas) demoA1 demoA1 demoMin demoMax)
   \<and> length (projr (processWellPlate (Drawn demoCanvas) demoA1 demoA1 demoMin demoMax)) = 48"
proof -
  have mn: "referencePixels demoCanvas demoA1 demoA1 demoMin = [black, black, black]"
    using demo_black_sample [of 20 20 0]
    by (simp add: referencePixels_def gridRadius_same demoMin_def)
  have mx: "referencePixels demoCanvas demoA1 demoA1 demoMax = [white, white, white]"
    using demo_white_sample [of 70 20 0]
    by (simp add: referencePixels_def gridRadius_same demoMax_def)
  show ?thesis
    by (simp add: processWellPlate_Drawn mn mx gridRadius_same length_grid NUM_ROWS_def NUM_COLS_def)
qed

subsection \<open>The robust estimator\<close>

lemma middleValues_odd:
  assumes "length s = 2 * j + 1"
  shows "middleValues s = [s ! j]"
proof -
  have "j < length s" using assms by simp
  then have "drop j s = s ! j # drop (Suc j) s"
    by (simp add: Cons_nth_drop_Suc)
  then show ?thesis
    using assms by (simp add: middleValues_def Let_def)
qed

lemma middleValues_even:
  assumes "length s = 2 * j + 2"
  shows "middleValues s = [s ! j, s ! (j + 1)]"
proof -
  have "j < length s" "Suc j < length s" using assms by simp_all
  then have "drop j s = s ! j # s ! Suc j # drop (Suc (Suc j)) s"
    by (simp add: Cons_nth_drop_Suc)
  moreover have "(length s - 1) div 2 = j" "length s - 2 * j = 2"
    using assms by simp_all
  ultimately show ?thesis
    by (simp add: middleValues_def Let_def numeral_2_eq_2)
qed

lemma medianOf_odd: "length s = 2 * j + 1 \<Longrightarrow> medianOf s = s ! j"
  by (simp add: medianOf_def Let_def)

lemma medianOf_even: "length s = 2 * j + 2 \<Longrightarrow> medianOf s = (s ! j + s ! (j + 1)) / 2"
  by (simp add: medianOf_def Let_def)

lemma length_cases:
  fixes n :: nat
  assumes "0 < n"
  obtains j where "n = 2 * j + 1" | j where "n = 2 * j + 2"
proof (cases "even n")
  case True
  then obtain k where "n = 2 * k" by (auto elim: evenE)
  with assms have "n = 2 * (k - 1) + 2" by simp
  then show ?thesis using that(2) by blast
next
  case False
  then obtain k where "n = 2 * k + 1" by (auto elim: oddE)
  then show ?thesis using that(1) by blast
qed

lemma medianOf_middle:
  assumes "s \<noteq> []"
  shows "medianOf s = sum_list (middleValues s) / real (length (middleValues s))"
proof -
  have "0 < length s" using assms by simp
  then show ?thesis
  proof (cases rule: length_cases)
    case (1 j)
    then show ?thesis by (simp add: medianOf_odd middleValues_odd)
  next
    case (2 j)
    then show ?thesis by (simp add: medianOf_even middleValues_even)
  qed
qed

lemma medianOf_sort:
  assumes "vs \<noteq> []"
  shows "medianOf (sort vs) = median_spec vs"
proof -
  have "length (sort vs) \<noteq> 0"
    using assms by (simp only: length_sort) simp
  then have "sort vs \<noteq> []"
    by (simp only: length_0_conv not_False_eq_True)
  then have "medianOf (sort vs)
               = sum_list (middleValues (sort vs)) / real (length (middleValues (sort vs)))"
    by (rule medianOf_middle)
  then show ?thesis
    by (simp only: median_spec_def Let_def)
qed

lemma median_spec_odd: "length vs = 2 * j + 1 \<Longrightarrow> median_spec vs = sort vs ! j"
  using middleValues_odd [of "sort vs" j] by (simp add: median_spec_def Let_def)

lemma median_spec_even:
  "length vs = 2 * j + 2 \<Longrightarrow> median_spec vs = (sort vs ! j + sort vs ! (j + 1)) / 2"
  using middleValues_even [of "sort vs" j] by (simp add: median_spec_def Let_def)

lemma getRobustAverageColor_general:
  assumes "2 \<le> length pixels"
  shows "getRobustAverageColor pixels =
           labToRgb \<lparr>lab_l = median_spec (map lab_l (map rgbToLab pixels)),
                     lab_a = median_spec (map lab_a (map rgbToLab pixels)),
                     lab_b = median_spec (map lab_b (map rgbToLab pixels))\<rparr>"
proof -
  from assms obtain p q rest where px: "pixels = p # q # rest"
    by (cases pixels; cases "tl pixels") auto
  have m: "medianOf (sort (map f (map rgbToLab (p # q # rest))))
             = median_spec (map f (map rgbToLab (p # q # rest)))" for f :: "Lab \<Rightarrow> real"
    by (rule medianOf_sort) simp
  show ?thesis
    unfolding px getRobustAverageColor.simps Let_def m ..
qed

text \<open>
  Claim C7. The estimator returns black on the empty sequence and the pixel itself on a
  sequence of one pixel; on two or more pixels it converts the pixels to Lab, takes for each
  of the three channels the median of the sorted channel (the middle value of an odd count,
  the average of the two middle values of an even count), and converts the colour of the three
  medians back. It agrees everywhere with the estimate as the specification words it.
\<close>

theorem estimator_refines_spec:
  "getRobustAverageColor [] = \<lparr>rgb_r = 0, rgb_g = 0, rgb_b = 0\<rparr>
   \<and> getRobustAverageColor [p] = p
   \<and> (2 \<le> length pixels \<longrightarrow>
        getRobustAverageColor pixels =
           labToRgb \<lparr>lab_l = median_spec (map lab_l (map rgbToLab pixels)),
                     lab_a = median_spec (map lab_a (map rgbToLab pixels)),
                     lab_b = median_spec (map lab_b (map rgbToLab pixels))\<rparr>)
   \<and> getRobustAverageColor pixels = estimate_spec pixels
   \<and> (\<forall>vs j. length vs = 2 * j + 1 \<longrightarrow> median_spec vs = sort vs ! j)
   \<and> (\<forall>vs j. length vs = 2 * j + 2 \<longrightarrow> median_spec vs = (sort vs ! j + sort vs ! (j + 1)) / 2)"
proof -
  have gen: "2 \<le> length pixels \<longrightarrow>
        getRobustAverageColor pixels =
           labToRgb \<lparr>lab_l = median_spec (map lab_l (map rgbToLab pixels)),
                     lab_a = median_spec (map lab_a (map rgbToLab pixels)),
                     lab_b = median_spec (map lab_b (map rgbToLab pixels))\<rparr>"
    using getRobustAverageColor_general by blast
  have spec: "getRobustAverageColor pixels = estimate_spec pixels"
  proof (cases "2 \<le> length pixels")
    case True
    then have "pixels \<noteq> []" "length pixels \<noteq> 1" by auto
    then show ?thesis
      using getRobustAverageColor_general [OF True] by (simp add: estimate_spec_def Let_def)
  next
    case False
    then consider "pixels = []" | q where "pixels = [q]"
      by (cases pixels; cases "tl pixels") auto
    then show ?thesis
      by cases (simp_all add: estimate_spec_def)
  qed
  show ?thesis
    using gen spec median_spec_odd median_spec_even by simp
qed

theorem estimator_refines_spec_witness:
  "2 \<le> length [black, white, white, black]
   \<and> length (map lab_l (map rgbToLab [black, white, white, black])) = 2 * 1 + 2
   \<and> getRobustAverageColor [black, white, white, black]
       = labToRgb \<lparr>lab_l = median_spec (map lab_l (map rgbToLab [black, white, white, black])),
                   lab_a = median_spec (map lab_a (map rgbToLab [black, white, white, black])),
                   lab_b = median_spec (map lab_b (map rgbToLab [black, white, white, black]))\<rparr>
   \<and> median_spec (map lab_l (map rgbToLab [black, white, white, black]))
       = (sort (map lab_l (map rgbToLab [black, white, white, black])) ! 1
          + sort (map lab_l (map rgbToLab [black, white, white, black])) ! (1 + 1)) / 2"
proof -
  have len: "2 \<le> length [black, white, white, black]"
    by simp
  have len2: "length (map lab_l (map rgbToLab [black, white, white, black])) = 2 * 1 + 2"
    by simp
  show ?thesis
    using estimator_refines_spec [of black "[black, white, white, black]"] len len2
    by blast
qed

subsection \<open>Round trip through Lab\<close>

lemma rgbToLab_linear_low: "c \<le> 0.04045 \<Longrightarrow> rgbToLab_linear c = c / 12.92"
  by (simp add: rgbToLab_linear_def)

lemma rgbToLab_linear_high:
  "0.04045 < c \<Longrightarrow> rgbToLab_linear c = ((c + 0.055) / 1.055) powr (12 / 5)"
  by (simp add: rgbToLab_linear_def)

lemma labToRgb_toSrgb_low: "c \<le> 0.0031308 \<Longrightarrow> labToRgb_toSrgb c = 12.92 * c"
  by (simp add: labToRgb_toSrgb_def)

lemma labToRgb_toSrgb_high:
  "0.0031308 < c \<Longrightarrow> labToRgb_toSrgb c = 1.055 * c powr (5 / 12) - 0.055"
  by (simp add: labToRgb_toSrgb_def)

lemma powr_12_5_split:
  fixes x :: real
  assumes "0 < x"
  shows "x powr (12 / 5) = x * x powr (7 / 5)"
proof -
  have "x powr (12 / 5) = x powr (1 + 7 / 5)" by simp
  also have "\<dots> = x powr 1 * x powr (7 / 5)" by (rule powr_add)
  finally show ?thesis using assms by simp
qed

lemma powr_12_5_inverse:
  fixes x :: real
  assumes "0 < x"
  shows "(x powr (12 / 5)) powr (5 / 12) = x"
  using assms by (simp add: powr_powr)

lemma powr_12_5_lower:
  fixes x y :: real
  assumes "0 \<le> x" "0 < y" "x ^ 5 \<le> y ^ 12"
  shows "x \<le> y powr (12 / 5)"
proof -
  have "(y powr (12 / 5)) ^ 5 = y powr 12"
    using assms(2) by (simp add: powr_power)
  also have "\<dots> = y ^ 12"
    using assms(2) by (simp add: powr_numeral)
  finally have "x ^ Suc 4 \<le> (y powr (12 / 5)) ^ Suc 4"
    using assms(3) by simp
  then show ?thesis
    by (rule power_le_imp_le_base) simp
qed

lemma Math_round_unique:
  assumes "\<bar>v - real_of_int n\<bar> < 1 / 2"
  shows "Math_round v = n"
proof -
  have "real_of_int n \<le> v + 1 / 2" "v + 1 / 2 < real_of_int n + 1"
    using assms by linarith+
  then show ?thesis
    unfolding Math_round_def by (intro floor_unique) simp_all
qed

lemma labToRgb_clamp_exact:
  fixes n :: nat
  assumes "n \<le> 255" "\<bar>v * 255 - real n\<bar> < 1 / 2"
  shows "labToRgb_clamp v = real n"
proof -
  have "Math_round (v * 255) = int n"
    using assms(2) by (intro Math_round_unique) simp
  then show ?thesis
    using assms(1) by (simp add: labToRgb_clamp_def)
qed

lemma scaled_close:
  fixes c a k e :: real
  assumes "0 < k" "\<bar>c - a / k\<bar> \<le> e"
  shows "\<bar>k * c - a\<bar> \<le> k * e"
proof -
  have "k * c - a = k * (c - a / k)"
    using assms(1) by (simp add: field_simps)
  then have "\<bar>k * c - a\<bar> = k * \<bar>c - a / k\<bar>"
    using assms(1) by (simp add: abs_mult)
  also have "\<dots> \<le> k * e"
    using assms by (intro mult_left_mono) simp_all
  finally show ?thesis .
qed

lemma toSrgb_round_low:
  fixes n :: nat and c :: real
  assumes n: "n \<le> 10"
      and close: "\<bar>c - rgbToLab_linear (real n / 255)\<bar> \<le> (6 / 1000000)"
  shows "labToRgb_clamp (labToRgb_toSrgb c) = real n"
proof -
  have n10: "real n \<le> 10"
    using n by simp
  have "real n / 255 \<le> 0.04045"
    using n10 by simp
  then have lin: "rgbToLab_linear (real n / 255) = real n / 255 / 12.92"
    by (rule rgbToLab_linear_low)
  have eq: "real n / 255 / 12.92 = real n / 3294.6"
    by simp
  have c: "\<bar>c - real n / 3294.6\<bar> \<le> (6 / 1000000)"
    using close unfolding lin eq .
  have "real n / 3294.6 \<le> 10 / 3294.6"
    using n10 by (simp add: divide_right_mono)
  moreover have "c \<le> real n / 3294.6 + (6 / 1000000)"
    using c by linarith
  moreover have "(10::real) / 3294.6 + (6 / 1000000) \<le> 0.0031308"
    by simp
  ultimately have "c \<le> 0.0031308"
    by linarith
  then have s: "labToRgb_toSrgb c = 12.92 * c"
    by (rule labToRgb_toSrgb_low)
  have e: "labToRgb_toSrgb c * 255 = 3294.6 * c"
    unfolding s by simp
  have "\<bar>3294.6 * c - real n\<bar> \<le> 3294.6 * (6 / 1000000)"
    using c by (intro scaled_close) simp_all
  also have "(3294.6::real) * (6 / 1000000) < 1 / 2"
    by simp
  finally have "\<bar>labToRgb_toSrgb c * 255 - real n\<bar> < 1 / 2"
    unfolding e .
  then show ?thesis
    using n by (intro labToRgb_clamp_exact) simp_all
qed

lemma toSrgb_round_high:
  fixes n :: nat and c :: real
  assumes n: "11 \<le> n" "n \<le> 255"
      and close: "\<bar>c - rgbToLab_linear (real n / 255)\<bar> \<le> (6 / 1000000)"
  shows "labToRgb_clamp (labToRgb_toSrgb c) = real n"
proof -
  define s :: real where "s = (real n / 255 + 0.055) / 1.055"
  define eta :: real where "eta = 1 / 538.05"
  define Q :: real where "Q = s powr (7 / 5)"
  have n_lo: "11 \<le> real n" and n_hi: "real n \<le> 255"
    using n by simp_all
  have s_lo: "0.093 \<le> s"
    using n_lo unfolding s_def by simp
  have s_hi: "s \<le> 1"
    using n_hi unfolding s_def by simp
  have s_pos: "0 < s"
    using s_lo by simp
  have n_eq: "real n = 269.025 * s - 14.025"
    unfolding s_def by (simp add: field_simps)
  have "0.04045 < real n / 255"
    using n_lo by simp
  then have lin: "rgbToLab_linear (real n / 255) = s powr (12 / 5)"
    unfolding s_def by (rule rgbToLab_linear_high)
  have R: "s powr (12 / 5) = s * Q"
    unfolding Q_def using s_pos by (rule powr_12_5_split)
  have "s powr 2 \<le> s powr (7 / 5)"
    using s_pos s_hi by (intro powr_mono') simp_all
  then have "s ^ 2 \<le> Q"
    using s_pos unfolding Q_def by (simp add: powr_numeral)
  moreover have "0.093 ^ 2 \<le> s ^ 2"
    using s_lo by (intro power_mono) simp_all
  ultimately have Q_lo: "0.008649 \<le> Q"
    by (simp add: power2_eq_square)
  have etaQ: "(16 / 1000000) \<le> eta * Q"
  proof -
    have "eta * 0.008649 \<le> eta * Q"
      using Q_lo unfolding eta_def by (intro mult_left_mono) simp_all
    moreover have "(16 / 1000000) \<le> eta * 0.008649"
      unfolding eta_def by simp
    ultimately show ?thesis by linarith
  qed
  have c_bounds: "s * Q - (6 / 1000000) \<le> c" "c \<le> s * Q + (6 / 1000000)"
    using close unfolding lin R by linarith+
  have lo_pos: "0.0911 \<le> s - eta"
    using s_lo unfolding eta_def by simp
  have up: "c < (s + eta) powr (12 / 5)"
  proof -
    have "s powr (7 / 5) \<le> (s + eta) powr (7 / 5)"
      using s_pos unfolding eta_def by (intro powr_mono2) simp_all
    then have "(s + eta) * Q \<le> (s + eta) * (s + eta) powr (7 / 5)"
      using s_pos unfolding Q_def eta_def by (intro mult_left_mono) simp_all
    also have "\<dots> = (s + eta) powr (12 / 5)"
      using s_pos unfolding eta_def by (intro powr_12_5_split [symmetric]) simp
    finally have "s * Q + eta * Q \<le> (s + eta) powr (12 / 5)"
      by (simp add: algebra_simps)
    then show ?thesis
      using c_bounds(2) etaQ by linarith
  qed
  have low: "(s - eta) powr (12 / 5) < c"
  proof -
    have "(s - eta) powr (7 / 5) \<le> s powr (7 / 5)"
      using lo_pos unfolding eta_def by (intro powr_mono2) simp_all
    then have "(s - eta) * (s - eta) powr (7 / 5) \<le> (s - eta) * Q"
      using lo_pos unfolding Q_def by (intro mult_left_mono) simp_all
    moreover have "(s - eta) powr (12 / 5) = (s - eta) * (s - eta) powr (7 / 5)"
      using lo_pos by (intro powr_12_5_split) simp
    ultimately have "(s - eta) powr (12 / 5) \<le> s * Q - eta * Q"
      by (simp add: algebra_simps)
    then show ?thesis
      using c_bounds(1) etaQ by linarith
  qed
  have thr: "0.0031308 \<le> (s - eta) powr (12 / 5)"
  proof -
    have "(0.0031308::real) \<le> 0.0911 powr (12 / 5)"
      by (rule powr_12_5_lower) (simp_all add: power_divide)
    also have "\<dots> \<le> (s - eta) powr (12 / 5)"
      using lo_pos by (intro powr_mono2) simp_all
    finally show ?thesis .
  qed
  have c_thr: "0.0031308 < c"
    using thr low by linarith
  then have c_pos: "0 < c"
    by simp
  define p :: real where "p = c powr (5 / 12)"
  have "c powr (5 / 12) < ((s + eta) powr (12 / 5)) powr (5 / 12)"
    using up c_pos by (intro powr_less_mono2) simp_all
  also have "\<dots> = s + eta"
    using s_pos unfolding eta_def by (intro powr_12_5_inverse) simp
  finally have p_up: "p < s + eta"
    unfolding p_def .
  have "((s - eta) powr (12 / 5)) powr (5 / 12) < c powr (5 / 12)"
    using low by (intro powr_less_mono2) simp_all
  moreover have "((s - eta) powr (12 / 5)) powr (5 / 12) = s - eta"
    using lo_pos by (intro powr_12_5_inverse) simp
  ultimately have p_lo: "s - eta < p"
    unfolding p_def by simp
  have srgb: "labToRgb_toSrgb c = 1.055 * p - 0.055"
    unfolding p_def using c_thr by (rule labToRgb_toSrgb_high)
  have A: "(1.055 * p - 0.055) * 255 - real n = 269.025 * (p - s)"
    unfolding n_eq by simp
  have B: "\<bar>269.025 * (p - s)\<bar> < 1 / 2"
    using p_up p_lo unfolding eta_def by (simp add: abs_less_iff)
  have "\<bar>labToRgb_toSrgb c * 255 - real n\<bar> < 1 / 2"
    unfolding srgb A by (rule B)
  then show ?thesis
    using n(2) by (intro labToRgb_clamp_exact) simp_all
qed

lemma f_inv_f_close:
  assumes "0 \<le> t"
  shows "\<bar>labToRgb_f_inv (rgbToLab_f t) - t\<bar> \<le> 1 / 1000000"
proof (cases "0.008856 < t")
  case False
  then have f: "rgbToLab_f t = 7.787 * t + 16 / 116"
    by (simp add: rgbToLab_f_def)
  have "7.787 * t + 16 / 116 \<le> 0.206897"
    using False by simp
  then have "labToRgb_f_inv (7.787 * t + 16 / 116) = (7.787 * t + 16 / 116 - 16 / 116) / 7.787"
    by (simp add: labToRgb_f_inv_def)
  then have "labToRgb_f_inv (rgbToLab_f t) = t"
    unfolding f by simp
  then show ?thesis by simp
next
  case True
  define c :: real where "c = t powr (1 / 3)"
  have f: "rgbToLab_f t = c"
    using True by (simp add: rgbToLab_f_def c_def)
  have c3: "c ^ 3 = t"
    unfolding c_def using True by (intro cbrt_cube) simp
  have c0: "0 \<le> c"
    unfolding c_def by simp
  show ?thesis
  proof (cases "0.206897 < c")
    case True
    then have "labToRgb_f_inv c = c ^ 3"
      by (simp add: labToRgb_f_inv_def)
    then show ?thesis
      unfolding f c3 by simp
  next
    case False
    then have c_hi: "c \<le> 0.206897"
      by simp
    have c_lo: "0.20689 \<le> c"
    proof (rule ccontr)
      assume "\<not> 0.20689 \<le> c"
      then have "c \<le> 0.20689" by simp
      then have "c ^ 3 \<le> 0.20689 ^ 3"
        using c0 by (intro power_mono)
      moreover have "(0.20689::real) ^ 3 < 0.008856"
        by (simp add: power_divide)
      ultimately show False
        using c3 \<open>0.008856 < t\<close> by simp
    qed
    have t_hi: "t \<le> 0.206897 ^ 3"
      unfolding c3 [symmetric] using c_hi c0 by (intro power_mono)
    define u :: real where "u = (c - 16 / 116) / 7.787"
    have inv: "labToRgb_f_inv c = u"
      using False by (simp add: labToRgb_f_inv_def u_def)
    have u_hi: "u \<le> (0.206897 - 16 / 116) / 7.787"
      unfolding u_def using c_hi by (intro divide_right_mono diff_right_mono) simp_all
    have u_lo: "(0.20689 - 16 / 116) / 7.787 \<le> u"
      unfolding u_def using c_lo by (intro divide_right_mono diff_right_mono) simp_all
    have "u - t \<le> (0.206897 - 16 / 116) / 7.787 - 0.008856"
      using u_hi \<open>0.008856 < t\<close> by (intro diff_mono) simp_all
    also have "\<dots> \<le> 1 / 1000000"
      by simp
    finally have up: "u - t \<le> 1 / 1000000" .
    have "t - u \<le> 0.206897 ^ 3 - (0.20689 - 16 / 116) / 7.787"
      using u_lo t_hi by (intro diff_mono)
    also have "\<dots> \<le> 1 / 1000000"
      by (simp add: power_divide)
    finally have low: "t - u \<le> 1 / 1000000" .
    have "- (u - t) \<le> 1 / 1000000"
      using low by simp
    with up show ?thesis
      unfolding f inv by (intro abs_leI)
  qed
qed

lemma rgbToLab_linear_range:
  fixes n :: nat
  assumes "n \<le> 255"
  shows "0 \<le> rgbToLab_linear (real n / 255)" and "rgbToLab_linear (real n / 255) \<le> 1"
proof -
  have n: "real n \<le> 255"
    using assms by simp
  show "0 \<le> rgbToLab_linear (real n / 255)"
    by (simp add: rgbToLab_linear_def)
  show "rgbToLab_linear (real n / 255) \<le> 1"
  proof (cases "real n / 255 \<le> 0.04045")
    case True
    then show ?thesis
      by (simp add: rgbToLab_linear_low)
  next
    case False
    then have "rgbToLab_linear (real n / 255) = ((real n / 255 + 0.055) / 1.055) powr (12 / 5)"
      by (intro rgbToLab_linear_high) simp
    also have "\<dots> \<le> 1 powr (12 / 5)"
      using n by (intro powr_mono2) simp_all
    finally show ?thesis by simp
  qed
qed

lemma labToRgb_of_f:
  "labToRgb \<lparr>lab_l = 116 * fy - 16, lab_a = 500 * (fx - fy), lab_b = 200 * (fy - fz)\<rparr> =
     \<lparr>rgb_r = labToRgb_clamp (labToRgb_toSrgb
                (labToRgb_f_inv fx * 0.95047 * 3.2404542 + labToRgb_f_inv fy * (- 1.5371385)
                  + labToRgb_f_inv fz * 1.08883 * (- 0.4985314))),
      rgb_g = labToRgb_clamp (labToRgb_toSrgb
                (labToRgb_f_inv fx * 0.95047 * (- 0.9692660) + labToRgb_f_inv fy * 1.8760108
                  + labToRgb_f_inv fz * 1.08883 * 0.0415560)),
      rgb_b = labToRgb_clamp (labToRgb_toSrgb
                (labToRgb_f_inv fx * 0.95047 * 0.0556434 + labToRgb_f_inv fy * (- 0.2040259)
                  + labToRgb_f_inv fz * 1.08883 * 1.0572252))\<rparr>"
proof -
  define lab where "lab = \<lparr>lab_l = 116 * fy - 16, lab_a = 500 * (fx - fy), lab_b = 200 * (fy - fz)\<rparr>"
  have y0: "(lab_l lab + 16) / 116 = fy"
    by (simp add: lab_def)
  have x0: "lab_a lab / 500 + fy = fx"
    by (simp add: lab_def diff_divide_distrib)
  have z0: "fy - lab_b lab / 200 = fz"
    by (simp add: lab_def diff_divide_distrib)
  have "labToRgb lab =
     \<lparr>rgb_r = labToRgb_clamp (labToRgb_toSrgb
                (labToRgb_f_inv fx * 0.95047 * 3.2404542 + labToRgb_f_inv fy * (- 1.5371385)
                  + labToRgb_f_inv fz * 1.08883 * (- 0.4985314))),
      rgb_g = labToRgb_clamp (labToRgb_toSrgb
                (labToRgb_f_inv fx * 0.95047 * (- 0.9692660) + labToRgb_f_inv fy * 1.8760108
                  + labToRgb_f_inv fz * 1.08883 * 0.0415560)),
      rgb_b = labToRgb_clamp (labToRgb_toSrgb
                (labToRgb_f_inv fx * 0.95047 * 0.0556434 + labToRgb_f_inv fy * (- 0.2040259)
                  + labToRgb_f_inv fz * 1.08883 * 1.0572252))\<rparr>"
    unfolding labToRgb_def Let_def y0 x0 z0 by simp
  then show ?thesis
    unfolding lab_def .
qed

lemma linear_error:
  fixes R G B gx gy gz :: real
  assumes R: "0 \<le> R" "R \<le> 1" and G: "0 \<le> G" "G \<le> 1" and B: "0 \<le> B" "B \<le> 1"
    and gx: "\<bar>gx - (R * 0.4124564 + G * 0.3575761 + B * 0.1804375) / 0.95047\<bar> \<le> 1 / 1000000"
    and gy: "\<bar>gy - (R * 0.2126729 + G * 0.7151522 + B * 0.0721750) / 1.00000\<bar> \<le> 1 / 1000000"
    and gz: "\<bar>gz - (R * 0.0193339 + G * 0.1191920 + B * 0.9503041) / 1.08883\<bar> \<le> 1 / 1000000"
  shows "\<bar>gx * 0.95047 * 3.2404542 + gy * (- 1.5371385) + gz * 1.08883 * (- 0.4985314) - R\<bar>
           \<le> 6 / 1000000"
    and "\<bar>gx * 0.95047 * (- 0.9692660) + gy * 1.8760108 + gz * 1.08883 * 0.0415560 - G\<bar>
           \<le> 6 / 1000000"
    and "\<bar>gx * 0.95047 * 0.0556434 + gy * (- 0.2040259) + gz * 1.08883 * 1.0572252 - B\<bar>
           \<le> 6 / 1000000"
proof -
  define X where "X = R * 0.4124564 + G * 0.3575761 + B * 0.1804375"
  define Y where "Y = R * 0.2126729 + G * 0.7151522 + B * 0.0721750"
  define Z where "Z = R * 0.0193339 + G * 0.1191920 + B * 0.9503041"
  define ex where "ex = 0.95047 * gx - X"
  define ey where "ey = gy - Y"
  define ez where "ez = 1.08883 * gz - Z"
  have "\<bar>0.95047 * gx - X\<bar> \<le> 0.95047 * (1 / 1000000)"
    using gx unfolding X_def by (intro scaled_close) simp_all
  then have ex: "\<bar>ex\<bar> \<le> 95047 / 100000000000"
    unfolding ex_def by simp
  have ey: "\<bar>ey\<bar> \<le> 1 / 1000000"
    using gy unfolding ey_def Y_def by simp
  have "\<bar>1.08883 * gz - Z\<bar> \<le> 1.08883 * (1 / 1000000)"
    using gz unfolding Z_def by (intro scaled_close) simp_all
  then have ez: "\<bar>ez\<bar> \<le> 108883 / 100000000000"
    unfolding ez_def by simp
  have exb: "ex \<le> 95047 / 100000000000" "- ex \<le> 95047 / 100000000000"
    using ex by (simp_all only: abs_le_iff)
  have eyb: "ey \<le> 1 / 1000000" "- ey \<le> 1 / 1000000"
    using ey by (simp_all only: abs_le_iff)
  have ezb: "ez \<le> 108883 / 100000000000" "- ez \<le> 108883 / 100000000000"
    using ez by (simp_all only: abs_le_iff)
  have r: "gx * 0.95047 * 3.2404542 + gy * (- 1.5371385) + gz * 1.08883 * (- 0.4985314) - R
        = (32404542 / 10000000) * ex - (15371385 / 10000000) * ey - (4985314 / 10000000) * ez
          - (18503423 / 100000000000000) * R + (1011403 / 25000000000000) * G
          + (2503813 / 50000000000000) * B"
    unfolding ex_def ey_def ez_def X_def Y_def Z_def by (simp add: algebra_simps)
  have g: "gx * 0.95047 * (- 0.9692660) + gy * 1.8760108 + gz * 1.08883 * 0.0415560 - G
        = - (9692660 / 10000000) * ex + (18760108 / 10000000) * ey + (415560 / 10000000) * ez
          + (3295333 / 25000000000000) * R + (936329 / 25000000000000) * G
          - (86027 / 5000000000000) * B"
    unfolding ex_def ey_def ez_def X_def Y_def Z_def by (simp add: algebra_simps)
  have b: "gx * 0.95047 * 0.0556434 + gy * (- 0.2040259) + gz * 1.08883 * 1.0572252 - B
        = (556434 / 10000000) * ex - (2040259 / 10000000) * ey + (10572252 / 10000000) * ez
          - (1708607 / 100000000000000) * R - (881021 / 25000000000000) * G
          + (360479 / 12500000000000) * B"
    unfolding ex_def ey_def ez_def X_def Y_def Z_def by (simp add: algebra_simps)
  show "\<bar>gx * 0.95047 * 3.2404542 + gy * (- 1.5371385) + gz * 1.08883 * (- 0.4985314) - R\<bar>
           \<le> 6 / 1000000"
    unfolding r abs_le_iff using exb eyb ezb R G B by linarith
  show "\<bar>gx * 0.95047 * (- 0.9692660) + gy * 1.8760108 + gz * 1.08883 * 0.0415560 - G\<bar>
           \<le> 6 / 1000000"
    unfolding g abs_le_iff using exb eyb ezb R G B by linarith
  show "\<bar>gx * 0.95047 * 0.0556434 + gy * (- 0.2040259) + gz * 1.08883 * 1.0572252 - B\<bar>
           \<le> 6 / 1000000"
    unfolding b abs_le_iff using exb eyb ezb R G B by linarith
qed

lemma toSrgb_round:
  fixes n :: nat and c :: real
  assumes "n \<le> 255" "\<bar>c - rgbToLab_linear (real n / 255)\<bar> \<le> 6 / 1000000"
  shows "labToRgb_clamp (labToRgb_toSrgb c) = real n"
proof (cases "n \<le> 10")
  case True
  then show ?thesis using assms(2) by (rule toSrgb_round_low)
next
  case False
  then have "11 \<le> n" by simp
  then show ?thesis using assms by (rule toSrgb_round_high)
qed

lemma rgbToLab_of_linear:
  "rgbToLab c =
     \<lparr>lab_l = 116 * rgbToLab_f ((rgbToLab_linear (rgb_r c / 255) * 0.2126729
                                   + rgbToLab_linear (rgb_g c / 255) * 0.7151522
                                   + rgbToLab_linear (rgb_b c / 255) * 0.0721750) / 1.00000) - 16,
      lab_a = 500 * (rgbToLab_f ((rgbToLab_linear (rgb_r c / 255) * 0.4124564
                                   + rgbToLab_linear (rgb_g c / 255) * 0.3575761
                                   + rgbToLab_linear (rgb_b c / 255) * 0.1804375) / 0.95047)
                     - rgbToLab_f ((rgbToLab_linear (rgb_r c / 255) * 0.2126729
                                   + rgbToLab_linear (rgb_g c / 255) * 0.7151522
                                   + rgbToLab_linear (rgb_b c / 255) * 0.0721750) / 1.00000)),
      lab_b = 200 * (rgbToLab_f ((rgbToLab_linear (rgb_r c / 255) * 0.2126729
                                   + rgbToLab_linear (rgb_g c / 255) * 0.7151522
                                   + rgbToLab_linear (rgb_b c / 255) * 0.0721750) / 1.00000)
                     - rgbToLab_f ((rgbToLab_linear (rgb_r c / 255) * 0.0193339
                                   + rgbToLab_linear (rgb_g c / 255) * 0.1191920
                                   + rgbToLab_linear (rgb_b c / 255) * 0.9503041) / 1.08883))\<rparr>"
  unfolding rgbToLab_def Let_def ..

lemma labToRgb_rgbToLab_exact:
  fixes r g b :: nat
  assumes "r \<le> 255" "g \<le> 255" "b \<le> 255"
  shows "labToRgb (rgbToLab \<lparr>rgb_r = real r, rgb_g = real g, rgb_b = real b\<rparr>)
           = \<lparr>rgb_r = real r, rgb_g = real g, rgb_b = real b\<rparr>"
proof -
  define R where "R = rgbToLab_linear (real r / 255)"
  define G where "G = rgbToLab_linear (real g / 255)"
  define B where "B = rgbToLab_linear (real b / 255)"
  have R: "0 \<le> R" "R \<le> 1" and G: "0 \<le> G" "G \<le> 1" and B: "0 \<le> B" "B \<le> 1"
    unfolding R_def G_def B_def using assms by (simp_all add: rgbToLab_linear_range)
  define tx where "tx = (R * 0.4124564 + G * 0.3575761 + B * 0.1804375) / 0.95047"
  define ty where "ty = (R * 0.2126729 + G * 0.7151522 + B * 0.0721750) / 1.00000"
  define tz where "tz = (R * 0.0193339 + G * 0.1191920 + B * 0.9503041) / 1.08883"
  have t0: "0 \<le> tx" "0 \<le> ty" "0 \<le> tz"
    unfolding tx_def ty_def tz_def using R(1) G(1) B(1) by simp_all
  define gx where "gx = labToRgb_f_inv (rgbToLab_f tx)"
  define gy where "gy = labToRgb_f_inv (rgbToLab_f ty)"
  define gz where "gz = labToRgb_f_inv (rgbToLab_f tz)"
  have gx: "\<bar>gx - tx\<bar> \<le> 1 / 1000000" and gy: "\<bar>gy - ty\<bar> \<le> 1 / 1000000"
    and gz: "\<bar>gz - tz\<bar> \<le> 1 / 1000000"
    unfolding gx_def gy_def gz_def using t0 by (simp_all only: f_inv_f_close)
  note err = linear_error [OF R G B gx [unfolded tx_def] gy [unfolded ty_def] gz [unfolded tz_def]]
  have lab: "rgbToLab \<lparr>rgb_r = real r, rgb_g = real g, rgb_b = real b\<rparr>
           = \<lparr>lab_l = 116 * rgbToLab_f ty - 16,
              lab_a = 500 * (rgbToLab_f tx - rgbToLab_f ty),
              lab_b = 200 * (rgbToLab_f ty - rgbToLab_f tz)\<rparr>"
    unfolding rgbToLab_of_linear tx_def ty_def tz_def R_def G_def B_def by simp
  show ?thesis
    unfolding lab labToRgb_of_f gx_def [symmetric] gy_def [symmetric] gz_def [symmetric]
    using toSrgb_round [OF assms(1) err(1) [unfolded R_def]]
      toSrgb_round [OF assms(2) err(2) [unfolded G_def]]
      toSrgb_round [OF assms(3) err(3) [unfolded B_def]]
    by simp
qed

text \<open>
  Claim C6. For a colour whose three channels are integers from 0 to 255, converting to Lab
  and back changes no channel by more than 1. With numbers idealised as reals the round trip
  in fact returns the colour itself: the two matrices, the two thresholds of the cube-root
  stage and the two thresholds of the gamma stage are inverse to each other only up to
  about \<open>6 * 10\<^sup>-\<^sup>6\<close> in linear light, which the final rounding absorbs.
\<close>

theorem lab_round_trip:
  fixes r g b :: nat
  assumes "r \<le> 255" and "g \<le> 255" and "b \<le> 255"
      and "c = \<lparr>rgb_r = real r, rgb_g = real g, rgb_b = real b\<rparr>"
  shows "\<bar>rgb_r (labToRgb (rgbToLab c)) - rgb_r c\<bar> \<le> 1
       \<and> \<bar>rgb_g (labToRgb (rgbToLab c)) - rgb_g c\<bar> \<le> 1
       \<and> \<bar>rgb_b (labToRgb (rgbToLab c)) - rgb_b c\<bar> \<le> 1
       \<and> labToRgb (rgbToLab c) = c"
proof -
  have "labToRgb (rgbToLab c) = c"
    unfolding assms(4) using assms(1,2,3) by (rule labToRgb_rgbToLab_exact)
  then show ?thesis
    by simp
qed

theorem lab_round_trip_witness:
  "(200::nat) \<le> 255 \<and> (100::nat) \<le> 255 \<and> (7::nat) \<le> 255
   \<and> labToRgb (rgbToLab \<lparr>rgb_r = 200, rgb_g = 100, rgb_b = 7\<rparr>)
       = \<lparr>rgb_r = 200, rgb_g = 100, rgb_b = 7\<rparr>"
  using lab_round_trip [of 200 100 7, OF _ _ _ refl] by simp

end
